theory Spec2Isabelle
  imports Complex_Main
begin

section \<open>JavaScript values\<close>

text \<open>
  A JavaScript object used as a dictionary holds each key once and keeps its string keys
  in insertion order (keys that look like array indices are enumerated first; nothing proved
  here depends on the order). It is an association list; \<open>obj_set k v o\<close> is the
  assignment \<^verbatim>\<open>o[k] = v\<close>: an existing key keeps its place, a new key goes to the end.
  \<open>obj_entries\<close> is \<^verbatim>\<open>Object.entries(o)\<close>, a snapshot array of the pairs.
  The keys are the ids of candidates and workers; the one key a plain object does not
  store as an entry, \<^verbatim>\<open>__proto__\<close>, is taken not to be among them.
\<close>

type_synonym 'v js_object = "(string \<times> 'v) list"

fun obj_set :: "string \<Rightarrow> 'v \<Rightarrow> 'v js_object \<Rightarrow> 'v js_object" where
  "obj_set k v [] = [(k, v)]"
| "obj_set k v ((k', v') # rest) =
     (if k' = k then (k, v) # rest else (k', v') # obj_set k v rest)"

definition obj_entries :: "'v js_object \<Rightarrow> (string \<times> 'v) list" where
  "obj_entries obj = obj"

definition obj_get :: "'v js_object \<Rightarrow> string \<Rightarrow> 'v option" where
  "obj_get obj k = map_of obj k"

section \<open>voting.js: the voting state and \<open>setVote\<close>\<close>

text \<open>
  \<^verbatim>\<open>votingState\<close> of voting.js. A rank is the number read from a vote button
  (\<^verbatim>\<open>parseInt(btn.dataset.rank)\<close>): 1, 2, 3, or 0 for Skip.
\<close>

record voting_state =
  votes :: "int js_object"
  candidateFeedback :: "string js_object"
  workerFeedback :: "string js_object"
  overallFeedback :: string
  synthesizerFeedback :: string
  promptRating :: int
  promptFeedback :: string

text \<open>
  The loop of \<open>setVote\<close>:
  \<^verbatim>\<open>for (const [cid, r] of Object.entries(votingState.votes)) {
      if (cid !== candidateId && r === rank) { votingState.votes[cid] = 0; ... } }\<close>
  It walks the snapshot of the entries taken before the loop and writes into the live object.
  \<open>updateCandidateVoteUI\<close> and \<open>updateSubmitButton\<close>, called along the way, redraw
  the buttons and leave \<^verbatim>\<open>votingState\<close> alone.
\<close>

fun clear_rank :: "string \<Rightarrow> int \<Rightarrow> (string \<times> int) list \<Rightarrow> int js_object \<Rightarrow> int js_object" where
  "clear_rank candidateId rank [] vs = vs"
| "clear_rank candidateId rank ((cid, r) # es) vs =
     clear_rank candidateId rank es
       (if cid \<noteq> candidateId \<and> r = rank then obj_set cid 0 vs else vs)"

definition setVote :: "string \<Rightarrow> int \<Rightarrow> voting_state \<Rightarrow> voting_state" where
  "setVote candidateId rank st =
     (let vs1 = (if rank > 0
                 then clear_rank candidateId rank (obj_entries (votes st)) (votes st)
                 else votes st)
      in st\<lparr>votes := obj_set candidateId rank vs1\<rparr>)"

text \<open>A sequence of clicks on vote buttons, each a call \<open>setVote candidateId rank\<close>.\<close>

fun setVotes :: "(string \<times> int) list \<Rightarrow> voting_state \<Rightarrow> voting_state" where
  "setVotes [] st = st"
| "setVotes ((c, r) # calls) st = setVotes calls (setVote c r st)"

text \<open>
  The object holds every key once, and every rank above 0 is held by at most one candidate.
\<close>

definition wf_object :: "'v js_object \<Rightarrow> bool" where
  "wf_object obj = distinct (map fst obj)"

definition rank_unique :: "int js_object \<Rightarrow> bool" where
  "rank_unique vs =
     (\<forall>(c1, r1) \<in> set vs. \<forall>(c2, r2) \<in> set vs. 0 < r1 \<and> r1 = r2 \<longrightarrow> c1 = c2)"

definition holders :: "int \<Rightarrow> int js_object \<Rightarrow> string list" where
  "holders rank vs = map fst (filter (\<lambda>(c, r). r = rank) vs)"


section \<open>JavaScript numbers, strings and JSON\<close>

text \<open>
  The numbers that reach the modelled code are integers or NaN (the result of
  \<^verbatim>\<open>parseInt\<close>). \<^verbatim>\<open>Math.max\<close> and \<^verbatim>\<open>Math.min\<close> return NaN as soon as
  one argument is NaN; \<^verbatim>\<open>a || b\<close> takes \<open>b\<close> when \<open>a\<close> is falsy (0 and NaN are).
\<close>

datatype jsnum = NaN | Num int

fun math_max :: "jsnum \<Rightarrow> jsnum \<Rightarrow> jsnum" where
  "math_max (Num a) (Num b) = Num (max a b)"
| "math_max _ _ = NaN"

fun math_min :: "jsnum \<Rightarrow> jsnum \<Rightarrow> jsnum" where
  "math_min (Num a) (Num b) = Num (min a b)"
| "math_min _ _ = NaN"

definition num_or :: "jsnum \<Rightarrow> int \<Rightarrow> int" where
  "num_or a b = (case a of Num n \<Rightarrow> (if n \<noteq> 0 then n else b) | NaN \<Rightarrow> b)"

text \<open>
  \<^verbatim>\<open>parseInt(s)\<close> without a radix: skip leading white space, read an optional sign, read
  the prefix \<^verbatim>\<open>0x\<close>/\<^verbatim>\<open>0X\<close> (radix 16, otherwise radix 10), take the longest run of digits
  of the radix; no digit gives NaN. Strings are byte strings here, so white space is the
  ASCII white space (JavaScript also skips the Unicode white space), and the value is the
  mathematical integer of the digits (JavaScript rounds it to a double, which changes
  nothing below 2 to the power 53).
\<close>

definition is_js_space :: "char \<Rightarrow> bool" where
  "is_js_space c = (c \<in> set [CHR '' '', CHR 0x09, CHR 0x0A, CHR 0x0B, CHR 0x0C, CHR 0x0D])"

definition digit_value :: "char \<Rightarrow> nat option" where
  "digit_value c =
     (let n = (of_char c :: nat) in
      if 48 \<le> n \<and> n \<le> 57 then Some (n - 48)
      else if 97 \<le> n \<and> n \<le> 122 then Some (n - 87)
      else if 65 \<le> n \<and> n \<le> 90 then Some (n - 55)
      else None)"

definition radix_digit :: "nat \<Rightarrow> char \<Rightarrow> bool" where
  "radix_digit radix c = (case digit_value c of Some d \<Rightarrow> d < radix | None \<Rightarrow> False)"

fun digits_value :: "nat \<Rightarrow> nat \<Rightarrow> string \<Rightarrow> nat" where
  "digits_value radix acc [] = acc"
| "digits_value radix acc (c # cs) =
     digits_value radix (acc * radix + (case digit_value c of Some d \<Rightarrow> d | None \<Rightarrow> 0)) cs"

definition parseInt :: "string \<Rightarrow> jsnum" where
  "parseInt s =
     (let s1 = dropWhile is_js_space s;
          neg = (take 1 s1 = ''-'');
          s2 = (if take 1 s1 = ''+'' \<or> take 1 s1 = ''-'' then drop 1 s1 else s1);
          hex = (take 2 s2 = ''0x'' \<or> take 2 s2 = ''0X'');
          radix = (if hex then 16 else 10);
          s3 = (if hex then drop 2 s2 else s2);
          z = takeWhile (radix_digit radix) s3
      in if z = [] then NaN
         else Num ((if neg then - 1 else 1) * int (digits_value radix 0 z)))"

text \<open>Decimal text of a number, as a template literal writes it.\<close>

function decimal :: "nat \<Rightarrow> string" where
  "decimal n =
     (if 10 \<le> n then decimal (n div 10) else []) @ [''0123456789'' ! (n mod 10)]"
  by pat_completeness auto
termination
  by (relation "measure id") auto

definition number_text :: "int \<Rightarrow> string" where
  "number_text i = (if 0 \<le> i then decimal (nat i) else CHR ''-'' # decimal (nat (- i)))"

text \<open>
  \<^verbatim>\<open>s.trim()\<close>, and the truth value of a string (the empty string is falsy), of
  \<^verbatim>\<open>f && f.trim()\<close>.
\<close>

definition js_trim :: "string \<Rightarrow> string" where
  "js_trim s = rev (dropWhile is_js_space (rev (dropWhile is_js_space s)))"

definition str_truthy :: "string \<Rightarrow> bool" where
  "str_truthy s = (s \<noteq> [])"

datatype json =
    JNull
  | JBool bool
  | JNum jsnum
  | JStr string
  | JArr "json list"
  | JObj "(string \<times> json) list"

text \<open>A dictionary of strings as the JSON object \<^verbatim>\<open>JSON.stringify\<close> sends.\<close>

definition json_of_strings :: "string js_object \<Rightarrow> json" where
  "json_of_strings obj = JObj (map (\<lambda>(k, v). (k, JStr v)) obj)"

definition json_of_ints :: "int js_object \<Rightarrow> json" where
  "json_of_ints obj = JObj (map (\<lambda>(k, v). (k, JNum (Num v))) obj)"

section \<open>app.js: the client and its global state\<close>

text \<open>
  What the page does to the outside: HTTP requests through \<^verbatim>\<open>fetch\<close> (the \<^verbatim>\<open>api\<close>
  helper prefixes every endpoint with \<^verbatim>\<open>/api\<close>), event streams opened with
  \<^verbatim>\<open>new EventSource(url)\<close>, and the dialogs \<^verbatim>\<open>alert\<close> and \<^verbatim>\<open>confirm\<close>.
\<close>

datatype request =
    HttpGet string
  | HttpPost string json
  | HttpPut string json
  | HttpDelete string
  | EventSourceOpen string

datatype dialog = Alert string | Confirm string

definition api_post :: "string \<Rightarrow> json \<Rightarrow> request" where
  "api_post endpoint data = HttpPost (''/api'' @ endpoint) data"

fun is_post :: "request \<Rightarrow> bool" where
  "is_post (HttpPost _ _) = True"
| "is_post _ = False"

record persona =
  persona_id :: "string option"
  persona_name :: string

record worker =
  worker_id :: string
  worker_persona :: persona

text \<open>The configuration object the server returns; \<open>worker_count\<close> may be absent.\<close>

record config =
  cfg_mode :: string
  worker_count :: "jsnum option"

record token_stats =
  totalTokens :: int
  inputTokens :: int
  outputTokens :: int
  callCount :: int
  workerContextLimit :: int
  synthContextLimit :: int
  lastWorkerContextUsed :: int
  lastSynthContextUsed :: int

record candidate =
  cand_id :: string
  cand_summary :: string
  source_workers :: "string list"

text \<open>
  The global \<^verbatim>\<open>state\<close> of app.js, with the fields other modules add to it
  (\<^verbatim>\<open>state.candidates\<close>, \<^verbatim>\<open>state.votingResult\<close>, \<^verbatim>\<open>state.prompt\<close>); a field
  that was never assigned, or holds \<^verbatim>\<open>null\<close>, is \<open>None\<close>.
\<close>

record app_state =
  currentView :: string
  currentMode :: string
  sessionId :: "string option"
  sessionActive :: bool
  personas :: "persona list"
  workers :: "worker list"
  config :: "config option"
  tokenStats :: token_stats
  prompt :: "string option"
  candidates :: "candidate list option"
  votingResult :: "json option"

record log_entry =
  le_stage :: string
  le_workerId :: "string option"
  le_personaName :: "string option"
  le_content :: string
  le_type :: string

record button =
  disabled :: bool
  textContent :: string

text \<open>
  The client: the global state, \<^verbatim>\<open>sessionStorage\<close>, the ids of the elements present in
  the document, the requests and dialogs issued so far, the state of the session module
  (session.js: the log, the round counters, the feedback typed per worker) and of the voting
  module (voting.js: \<^verbatim>\<open>votingState\<close> and the submit button, if the document has one),
  the worker whose swap dialog is open (\<^verbatim>\<open>currentSwapWorker\<close>), and the text shown in
  the elements the swap writes to, by element id.
\<close>

record client =
  state :: app_state
  sessionStorage :: "string js_object"
  elements :: "string list"
  requests :: "request list"
  dialogs :: "dialog list"
  logEntries :: "log_entry list"
  currentRound :: int
  totalRounds :: int
  roundWorkerFeedback :: "string js_object"
  collabWorkerFeedback :: "string js_object"
  argumentWorkerFeedback :: "string js_object"
  votingState :: voting_state
  submitBtn :: "button option"
  currentSwapWorker :: "string option"
  elementText :: "string js_object"

definition has_element :: "client \<Rightarrow> string \<Rightarrow> bool" where
  "has_element c i = (i \<in> set (elements c))"

definition STORAGE_SESSION_ID :: string where
  "STORAGE_SESSION_ID = ''ai_council_session_id''"

definition STORAGE_SESSION_ACTIVE :: string where
  "STORAGE_SESSION_ACTIVE = ''ai_council_session_active''"

definition STORAGE_CURRENT_VIEW :: string where
  "STORAGE_CURRENT_VIEW = ''ai_council_current_view''"

definition removeItem :: "string \<Rightarrow> string js_object \<Rightarrow> string js_object" where
  "removeItem k store = filter (\<lambda>(k', v). k' \<noteq> k) store"

definition getItem :: "string js_object \<Rightarrow> string \<Rightarrow> string option" where
  "getItem store k = map_of store k"

definition clearSessionState :: "client \<Rightarrow> client" where
  "clearSessionState c =
     c\<lparr>sessionStorage :=
         removeItem STORAGE_CURRENT_VIEW
           (removeItem STORAGE_SESSION_ACTIVE
             (removeItem STORAGE_SESSION_ID (sessionStorage c)))\<rparr>"

text \<open>\<^verbatim>\<open>if (state.sessionId)\<close>: \<^verbatim>\<open>null\<close> and the empty string are falsy.\<close>

definition saveSessionState :: "client \<Rightarrow> client" where
  "saveSessionState c =
     (case sessionId (state c) of
        Some sid \<Rightarrow>
          (if str_truthy sid
           then c\<lparr>sessionStorage :=
                   obj_set STORAGE_CURRENT_VIEW (currentView (state c))
                     (obj_set STORAGE_SESSION_ACTIVE
                        (if sessionActive (state c) then ''true'' else ''false'')
                        (obj_set STORAGE_SESSION_ID sid (sessionStorage c)))\<rparr>
           else clearSessionState c)
      | None \<Rightarrow> clearSessionState c)"

definition showView :: "string \<Rightarrow> client \<Rightarrow> client" where
  "showView viewName c =
     (if has_element c (''view-'' @ viewName)
      then saveSessionState (c\<lparr>state := (state c)\<lparr>currentView := viewName\<rparr>\<rparr>)
      else c)"

text \<open>
  \<open>initializeWorkerCards\<close>: without the grid element nothing happens; otherwise
  \<^verbatim>\<open>state.workers\<close> is rebuilt with \<^verbatim>\<open>state.config?.worker_count ||
  (state.currentMode === '32GB' ? 3 : 2)\<close> workers, the i-th bound to
  \<^verbatim>\<open>state.personas[i] || { name: 'Default', id: null }\<close>.
\<close>

definition config_worker_count :: "app_state \<Rightarrow> jsnum" where
  "config_worker_count st =
     (case config st of
        None \<Rightarrow> NaN
      | Some cfg \<Rightarrow> (case worker_count cfg of None \<Rightarrow> NaN | Some n \<Rightarrow> n))"

definition default_persona :: persona where
  "default_persona = \<lparr>persona_id = None, persona_name = ''Default''\<rparr>"

definition make_worker :: "persona list \<Rightarrow> nat \<Rightarrow> worker" where
  "make_worker ps i =
     \<lparr>worker_id = ''worker_'' @ decimal (i + 1),
      worker_persona = (if i < length ps then ps ! i else default_persona)\<rparr>"

definition initializeWorkerCards :: "client \<Rightarrow> client" where
  "initializeWorkerCards c =
     (if \<not> has_element c ''workers-grid'' then c
      else
        (let workerCount =
               num_or (config_worker_count (state c))
                 (if currentMode (state c) = ''32GB'' then 3 else 2)
         in c\<lparr>state := (state c)\<lparr>workers :=
                 map (make_worker (personas (state c))) [0..<nat workerCount]\<rparr>\<rparr>))"

definition updateWorkerCount :: "jsnum \<Rightarrow> client \<Rightarrow> client" where
  "updateWorkerCount count c =
     initializeWorkerCards
       (c\<lparr>state := (state c)\<lparr>config :=
            map_option (\<lambda>cfg. cfg\<lparr>worker_count := Some count\<rparr>) (config (state c))\<rparr>\<rparr>)"

text \<open>
  The \<^verbatim>\<open>change\<close> listener of the worker-count control
  (\<open>initializeSettingsHandlers\<close>): the result is the number written back to the control
  and the client after \<open>updateWorkerCount\<close>.
\<close>

definition maxWorkers :: "app_state \<Rightarrow> int" where
  "maxWorkers st = (if currentMode st = ''32GB'' then 4 else 3)"

definition workerCount_change :: "string \<Rightarrow> client \<Rightarrow> jsnum \<times> client" where
  "workerCount_change v c =
     (let count = parseInt v;
          clampedCount = math_min (math_max count (Num 2)) (Num (maxWorkers (state c)))
      in (clampedCount, updateWorkerCount clampedCount c))"

text \<open>
  The \<^verbatim>\<open>click\<close> listener of the add-worker button, which reads the same control with
  \<^verbatim>\<open>parseInt(workerCountInput.value) || 2\<close>. The result is the number written to the
  control, if any, and the client afterwards.
\<close>

definition addWorker_click :: "string \<Rightarrow> client \<Rightarrow> jsnum option \<times> client" where
  "addWorker_click v c =
     (let currentCount = num_or (parseInt v) 2 in
      if currentCount < maxWorkers (state c)
      then (Some (Num (currentCount + 1)), updateWorkerCount (Num (currentCount + 1)) c)
      else (None,
            c\<lparr>dialogs := dialogs c @
                [Alert (''Maximum '' @ number_text (maxWorkers (state c))
                        @ '' workers allowed in '' @ currentMode (state c) @ '' mode'')]\<rparr>))"

text \<open>
  \<open>setMode\<close>. The reply of the server to \<^verbatim>\<open>POST /config/mode\<close> is an input: an error
  (the \<^verbatim>\<open>catch\<close> branch only writes to the console) or the new configuration.
  \<open>updateModeUI\<close> only redraws.
\<close>

definition setMode :: "(string + config) \<Rightarrow> string \<Rightarrow> client \<Rightarrow> client" where
  "setMode reply mode c =
     (if sessionActive (state c)
      then c\<lparr>dialogs := dialogs c @
               [Alert (''Cannot change mode while a council session is active.''
                       @ [CHR 0x0A, CHR 0x0A] @ ''Please end the current council first.'')]\<rparr>
      else
        (let c1 = c\<lparr>requests := requests c @
                     [api_post ''/config/mode'' (JObj [(''mode'', JStr mode)])]\<rparr>
         in case reply of
              Inl err \<Rightarrow> c1
            | Inr result \<Rightarrow>
                initializeWorkerCards
                  (c1\<lparr>state := (state c1)\<lparr>currentMode := cfg_mode result,
                                            config := Some result\<rparr>\<rparr>)))"

text \<open>
  The functions of the session module (session.js) that \<open>endCouncil\<close> calls:
  \<open>appendLog\<close>, \<open>clearLog\<close> and \<open>updateWorkerRoster\<close> (\<open>initChatTimeline\<close> only
  touches the document). The time stamp of a log entry is left out.
\<close>

definition appendLog ::
  "string \<Rightarrow> string option \<Rightarrow> string option \<Rightarrow> string \<Rightarrow> string \<Rightarrow> client \<Rightarrow> client" where
  "appendLog stage workerId personaName content type c =
     c\<lparr>logEntries := logEntries c @
         [\<lparr>le_stage = stage, le_workerId = workerId, le_personaName = personaName,
           le_content = content, le_type = type\<rparr>]\<rparr>"

definition clearLog :: "client \<Rightarrow> client" where
  "clearLog c = c\<lparr>logEntries := []\<rparr>"

definition fallback_worker :: "nat \<Rightarrow> worker" where
  "fallback_worker i =
     \<lparr>worker_id = ''worker_'' @ decimal (i + 1), worker_persona = default_persona\<rparr>"

definition updateWorkerRoster :: "client \<Rightarrow> client" where
  "updateWorkerRoster c =
     (if \<not> has_element c ''roster-members'' then c
      else if workers (state c) = []
      then c\<lparr>state := (state c)\<lparr>workers :=
               map fallback_worker [0..<nat (num_or (config_worker_count (state c)) 2)]\<rparr>\<rparr>
      else c)"

text \<open>
  \<open>endCouncil\<close>. \<open>answer\<close> is what the user answers to \<^verbatim>\<open>confirm\<close>;
  \<open>sessionModule\<close> tells whether \<^verbatim>\<open>window.aiCouncil.session\<close> is loaded. The result is
  the value the promise resolves to and the client afterwards. \<open>updateSessionUI\<close>,
  \<open>updateModeBlocker\<close> and the resets of the prompt area, the progress section and the
  diversify button only redraw, behind null checks.
\<close>

definition endCouncil :: "bool \<Rightarrow> bool \<Rightarrow> bool \<Rightarrow> client \<Rightarrow> bool \<times> client" where
  "endCouncil answer sessionModule showConfirm c =
     (let c0 = (if showConfirm
                then c\<lparr>dialogs := dialogs c @
                         [Confirm (''End this council session?'' @ [CHR 0x0A, CHR 0x0A]
                            @ ''The session log and feedback have been saved.'' @ [CHR 0x0A]
                            @ ''You can start a new council after ending this one.'')]\<rparr>
                else c)
      in if showConfirm \<and> \<not> answer then (False, c0)
         else
           (let c1 = clearSessionState
                       (c0\<lparr>state := (state c0)\<lparr>sessionId := None, sessionActive := False\<rparr>\<rparr>);
                c2 = initializeWorkerCards c1;
                c3 = (if sessionModule then updateWorkerRoster (clearLog c2) else c2);
                c4 = (if sessionModule
                      then appendLog ''system'' None None ''Session ended by user'' ''info'' c3
                      else c3)
            in (True, showView ''session'' c4)))"

text \<open>
  The client when the page is loaded: the initial \<^verbatim>\<open>state\<close> literal of app.js, an empty
  \<^verbatim>\<open>sessionStorage\<close>, the module variables of session.js at their initial values, and
  a document with the elements \<open>els\<close>.
\<close>

definition initial_state :: app_state where
  "initial_state =
     \<lparr>currentView = ''session'', currentMode = ''16GB'', sessionId = None,
      sessionActive = False, personas = [], workers = [], config = None,
      tokenStats = \<lparr>totalTokens = 0, inputTokens = 0, outputTokens = 0, callCount = 0,
                     workerContextLimit = 8192, synthContextLimit = 20480,
                     lastWorkerContextUsed = 0, lastSynthContextUsed = 0\<rparr>,
      prompt = None, candidates = None, votingResult = None\<rparr>"

definition initial_client :: "string list \<Rightarrow> client" where
  "initial_client els =
     \<lparr>state = initial_state, sessionStorage = [], elements = els, requests = [],
      dialogs = [], logEntries = [], currentRound = 0, totalRounds = 2,
      roundWorkerFeedback = [], collabWorkerFeedback = [], argumentWorkerFeedback = [],
      votingState =
        \<lparr>votes = [], candidateFeedback = [], workerFeedback = [], overallFeedback = [],
         synthesizerFeedback = [], promptRating = 0, promptFeedback = []\<rparr>,
      submitBtn = (if ''btn-submit-votes'' \<in> set els
                   then Some \<lparr>disabled = True, textContent = ''Submit Votes''\<rparr> else None),
      currentSwapWorker = None, elementText = []\<rparr>"

text \<open>A client in the middle of a session, used to exercise the functions.\<close>

definition active_client :: client where
  "active_client =
     (initial_client [''view-session'', ''workers-grid''])
       \<lparr>state := initial_state\<lparr>sessionId := Some ''5f2c9a1e'', sessionActive := True,
                               config := Some \<lparr>cfg_mode = ''16GB'', worker_count = Some (Num 2)\<rparr>\<rparr>,
        sessionStorage := [(''ai_council_session_id'', ''5f2c9a1e''),
                           (''ai_council_session_active'', ''true''),
                           (''ai_council_current_view'', ''session'')]\<rparr>"

text \<open>
  \<open>confirmSwap\<close>, the confirm button of the swap dialog. \<open>newPersonaId\<close> is the value
  of the persona select, \<open>action\<close> the value of the checked swap action, \<open>reply\<close>
  what \<^verbatim>\<open>api.post\<close> does. Without a session (or without a worker) the swap is local;
  with a session the swap is the server's, and the client writes the new persona name and,
  when the server reports \<^verbatim>\<open>state_cleared\<close>, the waiting notice into the output of the
  swapped worker. The elements of the worker cards are taken to be in the document.
\<close>

record swap_result =
  new_persona_name :: string
  state_cleared :: bool

definition opt_truthy :: "string option \<Rightarrow> bool" where
  "opt_truthy v = (case v of None \<Rightarrow> False | Some t \<Rightarrow> str_truthy t)"

definition closeSwapModal :: "client \<Rightarrow> client" where
  "closeSwapModal c = c\<lparr>currentSwapWorker := None\<rparr>"

definition confirmSwap :: "string \<Rightarrow> string \<Rightarrow> (string + swap_result) \<Rightarrow> client \<Rightarrow> client" where
  "confirmSwap newPersonaId action reply c =
     (if \<not> opt_truthy (currentSwapWorker c) \<or> \<not> opt_truthy (sessionId (state c))
      then
        (case (currentSwapWorker c,
               find (\<lambda>p. persona_id p = Some newPersonaId) (personas (state c))) of
           (Some w, Some p) \<Rightarrow>
             (case find (\<lambda>i. worker_id (workers (state c) ! i) = w)
                        [0..<length (workers (state c))] of
                Some workerIndex \<Rightarrow>
                  closeSwapModal
                    (c\<lparr>state := (state c)\<lparr>workers :=
                          (workers (state c))[workerIndex :=
                             (workers (state c) ! workerIndex)\<lparr>worker_persona := p\<rparr>]\<rparr>,
                       elementText := obj_set (''persona-'' @ w) (persona_name p) (elementText c)\<rparr>)
              | None \<Rightarrow> closeSwapModal c)
         | _ \<Rightarrow> closeSwapModal c)
      else
        (let w = (case currentSwapWorker c of Some w \<Rightarrow> w | None \<Rightarrow> []);
             c1 = c\<lparr>requests := requests c @
                      [api_post (''/session/''
                           @ (case sessionId (state c) of Some sid \<Rightarrow> sid | None \<Rightarrow> ''null'')
                           @ ''/swap-persona'')
                         (JObj [(''worker_id'', JStr w), (''persona_id'', JStr newPersonaId),
                                (''action'', JStr action)])]\<rparr>
         in case reply of
              Inl msg \<Rightarrow>
                c1\<lparr>dialogs := dialogs c1 @ [Alert (''Failed to swap persona: '' @ msg)]\<rparr>
            | Inr result \<Rightarrow>
                (let t1 = obj_set (''persona-'' @ w) (new_persona_name result) (elementText c1);
                     t2 = (if state_cleared result
                           then obj_set (''output-'' @ w)
                                  ''Persona swapped. Waiting for re-run...'' t1
                           else t1)
                 in closeSwapModal (c1\<lparr>elementText := t2\<rparr>))))"

section \<open>session.js: feedback submissions and event streams\<close>

text \<open>
  The path \<^verbatim>\<open>/session/${state.sessionId}/...\<close>; a template literal writes \<^verbatim>\<open>null\<close>
  as the text \<^verbatim>\<open>null\<close>.
\<close>

definition session_path :: "app_state \<Rightarrow> string \<Rightarrow> string" where
  "session_path st suffix =
     ''/session/'' @ (case sessionId st of None \<Rightarrow> ''null'' | Some sid \<Rightarrow> sid) @ suffix"

text \<open>
  \<open>continuePipeline\<close> opens the stream; the events that arrive on it later are the
  subject of \<open>stream_step\<close> below.
\<close>

definition continuePipeline :: "client \<Rightarrow> client" where
  "continuePipeline c =
     c\<lparr>requests := requests c @
         [EventSourceOpen (''/api'' @ session_path (state c) ''/continue'')]\<rparr>"

text \<open>
  The three feedback submissions. \<open>reply\<close> is what \<^verbatim>\<open>api.post\<close> does: it throws an
  error with a message (\<open>Inl\<close>) or returns the parsed response. The modal elements are
  taken to be in the document, and the round number to be a number.
\<close>

definition submitRoundFeedback :: "(string + json) \<Rightarrow> bool \<Rightarrow> client \<Rightarrow> client" where
  "submitRoundFeedback reply skipToSynthesis c =
     (let c1 = c\<lparr>requests := requests c @
                  [api_post (session_path (state c) ''/round-feedback'')
                     (JObj [(''round'', JNum (Num (currentRound c))),
                            (''worker_feedback'', json_of_strings (roundWorkerFeedback c)),
                            (''skip_to_synthesis'', JBool skipToSynthesis)])]\<rparr>
      in case reply of
           Inl msg \<Rightarrow>
             (let c2 = appendLog ''system'' None None (''Error: '' @ msg) ''error'' c1
              in c2\<lparr>dialogs := dialogs c2 @ [Alert (''Failed to submit feedback: '' @ msg)]\<rparr>)
         | Inr res \<Rightarrow>
             (let c2 = (if length (roundWorkerFeedback c1) > 0
                        then appendLog ''system'' None None
                               (''Round '' @ number_text (currentRound c1)
                                @ '' feedback submitted'') ''info'' c1
                        else c1);
                  c3 = appendLog ''system'' None None
                         (if skipToSynthesis then ''Skipping to synthesis...''
                          else ''Continuing to ''
                               @ (if currentRound c2 < totalRounds c2
                                  then ''round '' @ number_text (currentRound c2 + 1)
                                  else ''synthesis'')
                               @ ''...'') ''info'' c2
              in continuePipeline c3))"

definition submitCollabFeedback :: "(string + json) \<Rightarrow> bool \<Rightarrow> client \<Rightarrow> client" where
  "submitCollabFeedback reply skip c =
     (let c1 = c\<lparr>requests := requests c @
                  [api_post (session_path (state c) ''/collab-feedback'')
                     (JObj [(''round'', JNum (Num (currentRound c))),
                            (''worker_feedback'', json_of_strings (collabWorkerFeedback c)),
                            (''skip_to_synthesis'', JBool skip)])]\<rparr>
      in case reply of
           Inl msg \<Rightarrow>
             c1\<lparr>dialogs := dialogs c1 @ [Alert (''Failed to submit feedback: '' @ msg)]\<rparr>
         | Inr res \<Rightarrow>
             continuePipeline
               (appendLog ''system'' None None
                  (if skip then ''Skipping to synthesis...''
                   else ''Collaboration round '' @ number_text (currentRound c1)
                        @ '' feedback submitted'') ''info'' c1))"

definition submitArgumentFeedback :: "(string + json) \<Rightarrow> bool \<Rightarrow> client \<Rightarrow> client" where
  "submitArgumentFeedback reply skipToVoting c =
     (let c1 = c\<lparr>requests := requests c @
                  [api_post (session_path (state c) ''/argument-feedback'')
                     (JObj [(''round'', JNum (Num (currentRound c))),
                            (''worker_feedback'', json_of_strings (argumentWorkerFeedback c)),
                            (''skip_to_voting'', JBool skipToVoting)])]\<rparr>
      in case reply of
           Inl msg \<Rightarrow>
             (let c2 = appendLog ''system'' None None (''Error: '' @ msg) ''error'' c1
              in c2\<lparr>dialogs := dialogs c2 @ [Alert (''Failed to submit feedback: '' @ msg)]\<rparr>)
         | Inr res \<Rightarrow>
             (let c2 = (if length (argumentWorkerFeedback c1) > 0
                        then appendLog ''argument'' None None
                               (''Argument round '' @ number_text (currentRound c1)
                                @ '' feedback submitted'') ''info'' c1
                        else c1);
                  c3 = appendLog ''system'' None None
                         (if skipToVoting then ''Skipping to voting...''
                          else ''Continuing argumentation...'') ''info'' c2
              in continuePipeline c3))"

text \<open>
  The dialogs that ask for feedback after a round. Of what \<open>showRoundFeedbackModal\<close>,
  \<open>showCollabFeedbackModal\<close> and \<open>showArgumentFeedbackModal\<close> draw, the title and the
  round counters are kept; each resets the feedback typed for its kind of round. The event
  is taken to carry its round numbers and worker outputs, and the elements of the round and
  argument dialogs to be in the document. Without its dialog element,
  \<open>showCollabFeedbackModal\<close> submits at once with the skip flag set; with it, its
  title and counters are written behind null checks, and are taken to be there.
\<close>

record feedback_event =
  fe_round :: int
  fe_total_rounds :: int
  fe_workers :: "string list"

definition showRoundFeedbackModal :: "feedback_event \<Rightarrow> client \<Rightarrow> client" where
  "showRoundFeedbackModal ev c =
     c\<lparr>roundWorkerFeedback := [],
       elementText :=
         obj_set ''round-feedback-modal .total-rounds'' (number_text (fe_total_rounds ev))
           (obj_set ''round-feedback-modal .current-round'' (number_text (fe_round ev))
              (obj_set ''round-feedback-title''
                 (''Round '' @ number_text (fe_round ev) @ '' Complete'') (elementText c)))\<rparr>"

definition showCollabFeedbackModal ::
  "(string + json) \<Rightarrow> feedback_event \<Rightarrow> client \<Rightarrow> client" where
  "showCollabFeedbackModal reply ev c =
     (if \<not> has_element c ''collab-feedback-modal'' then submitCollabFeedback reply True c
      else
        c\<lparr>collabWorkerFeedback := [],
          elementText :=
            obj_set ''collab-feedback-modal .total-rounds'' (number_text (fe_total_rounds ev))
              (obj_set ''collab-feedback-modal .current-round'' (number_text (fe_round ev))
                 (obj_set ''collab-feedback-title''
                    (''Collaboration Round '' @ number_text (fe_round ev) @ '' Complete'')
                    (elementText c)))\<rparr>)"

definition showArgumentFeedbackModal :: "feedback_event \<Rightarrow> client \<Rightarrow> client" where
  "showArgumentFeedbackModal ev c =
     c\<lparr>argumentWorkerFeedback := [],
       elementText :=
         obj_set ''argument-feedback-modal .total-rounds'' (number_text (fe_total_rounds ev))
           (obj_set ''argument-feedback-modal .current-round'' (number_text (fe_round ev))
              (obj_set ''argument-feedback-title''
                 (''Argumentation Round '' @ number_text (fe_round ev) @ '' Complete'')
                 (elementText c)))\<rparr>"

text \<open>
  The cases \<^verbatim>\<open>awaiting_round_feedback\<close>, \<^verbatim>\<open>awaiting_collab_feedback\<close> and
  \<^verbatim>\<open>awaiting_argument_feedback\<close> of \<open>handlePipelineEvent\<close>: the round counters of
  the module are set from the event, the log gets a line, the dialog is shown. The event is
  taken to carry no token counts, so that the token statistics are not touched.
\<close>

definition handle_awaiting_round_feedback :: "feedback_event \<Rightarrow> client \<Rightarrow> client" where
  "handle_awaiting_round_feedback ev c =
     showRoundFeedbackModal ev
       (appendLog ''refinement'' None None
          (''Round '' @ number_text (fe_round ev) @ ''/'' @ number_text (fe_total_rounds ev)
           @ '' complete - awaiting feedback'') ''info''
          (c\<lparr>currentRound := fe_round ev, totalRounds := fe_total_rounds ev\<rparr>))"

definition handle_awaiting_collab_feedback ::
  "(string + json) \<Rightarrow> feedback_event \<Rightarrow> client \<Rightarrow> client" where
  "handle_awaiting_collab_feedback reply ev c =
     showCollabFeedbackModal reply ev
       (appendLog ''collaboration'' None None
          (''Collaboration round '' @ number_text (fe_round ev) @ ''/''
           @ number_text (fe_total_rounds ev) @ '' complete - awaiting feedback'') ''info''
          (c\<lparr>currentRound := fe_round ev, totalRounds := fe_total_rounds ev\<rparr>))"

definition handle_awaiting_argument_feedback :: "feedback_event \<Rightarrow> client \<Rightarrow> client" where
  "handle_awaiting_argument_feedback ev c =
     showArgumentFeedbackModal ev
       (appendLog ''argument'' None None
          (''Argument round '' @ number_text (fe_round ev) @ ''/''
           @ number_text (fe_total_rounds ev) @ '' complete - awaiting feedback'') ''info''
          (c\<lparr>currentRound := fe_round ev, totalRounds := fe_total_rounds ev\<rparr>))"


definition runPipeline_onerror :: "client \<Rightarrow> client" where
  "runPipeline_onerror c =
     appendLog ''system'' None None ''Pipeline connection lost'' ''error'' c"

definition continuePipeline_onerror :: "client \<Rightarrow> client" where
  "continuePipeline_onerror c =
     appendLog ''system'' None None ''Pipeline connection lost'' ''error'' c"

definition diversifyWorkers :: "client \<Rightarrow> client" where
  "diversifyWorkers c =
     (if \<not> opt_truthy (sessionId (state c))
      then c\<lparr>dialogs := dialogs c @ [Alert ''No active session'']\<rparr>
      else
        (let c1 = appendLog ''system'' None None
                    (''Triggering diversify action - workers will see each other''
                     @ [CHR 0x27] @ ''s responses'') ''info'' c
         in c1\<lparr>requests := requests c1 @
                [EventSourceOpen (''/api'' @ session_path (state c1) ''/diversify'')]\<rparr>))"

definition diversifyWorkers_onerror :: "client \<Rightarrow> client" where
  "diversifyWorkers_onerror c =
     appendLog ''system'' None None ''Diversify connection lost'' ''error'' c"

text \<open>The three closing conditions of the \<^verbatim>\<open>onmessage\<close> handlers, as written:\<close>

record pipeline_event =
  ev_type :: string
  ev_worker_id :: "string option"
  ev_payload :: string

datatype stream_kind = RunStream | ContinueStream | DiversifyStream

definition runPipeline_closes :: "string \<Rightarrow> bool" where
  "runPipeline_closes ty = (ty = ''complete'' \<or> ty = ''awaiting_user_input'')"

definition continuePipeline_closes :: "string \<Rightarrow> bool" where
  "continuePipeline_closes ty =
     (ty = ''complete'' \<or> ty = ''awaiting_user_input''
      \<or> ty = ''awaiting_round_feedback'' \<or> ty = ''awaiting_argument_feedback'')"

definition diversifyWorkers_closes :: "string \<Rightarrow> bool" where
  "diversifyWorkers_closes ty = (ty = ''complete'' \<or> ty = ''error'')"

fun closes_on :: "stream_kind \<Rightarrow> string \<Rightarrow> bool" where
  "closes_on RunStream ty = runPipeline_closes ty"
| "closes_on ContinueStream ty = continuePipeline_closes ty"
| "closes_on DiversifyStream ty = diversifyWorkers_closes ty"

text \<open>
  An \<^verbatim>\<open>EventSource\<close>: whether \<^verbatim>\<open>close()\<close> was called, and the events given to
  \<open>handlePipelineEvent\<close> so far. A closed \<^verbatim>\<open>EventSource\<close> dispatches nothing.

  What arrives on a stream: a message whose data parses to an event, a message whose data
  does not parse (\<^verbatim>\<open>JSON.parse\<close> throws before anything is handled), or a connection
  error. The handler calls \<^verbatim>\<open>close()\<close> after \<open>handlePipelineEvent\<close>, so only when that
  call returns: \<open>returns ev\<close> tells whether it does on the event \<open>ev\<close> (it throws, for
  one, on an \<^verbatim>\<open>awaiting_round_feedback\<close> event without worker outputs, or when an
  element it writes to is missing).
\<close>

record event_source =
  es_closed :: bool
  es_handled :: "pipeline_event list"

datatype stream_signal = Message pipeline_event | Unparsable | ConnectionError

fun stream_step ::
  "(pipeline_event \<Rightarrow> bool) \<Rightarrow> stream_kind \<Rightarrow> stream_signal \<Rightarrow> event_source \<Rightarrow> event_source" where
  "stream_step returns kind (Message ev) es =
     (if es_closed es then es
      else if returns ev
      then es\<lparr>es_handled := es_handled es @ [ev],
              es_closed := closes_on kind (ev_type ev)\<rparr>
      else es\<lparr>es_handled := es_handled es @ [ev]\<rparr>)"
| "stream_step returns kind Unparsable es = es"
| "stream_step returns kind ConnectionError es =
     (if es_closed es then es else es\<lparr>es_closed := True\<rparr>)"

fun stream_steps ::
  "(pipeline_event \<Rightarrow> bool) \<Rightarrow> stream_kind \<Rightarrow> stream_signal list \<Rightarrow> event_source \<Rightarrow> event_source" where
  "stream_steps returns kind [] es = es"
| "stream_steps returns kind (i # is) es =
     stream_steps returns kind is (stream_step returns kind i es)"

definition new_event_source :: event_source where
  "new_event_source = \<lparr>es_closed = False, es_handled = []\<rparr>"

definition worker_complete_event :: "string \<Rightarrow> pipeline_event" where
  "worker_complete_event w =
     \<lparr>ev_type = ''worker_complete'', ev_worker_id = Some w, ev_payload = ''draft''\<rparr>"

text \<open>
  The event types on which the interface description ends a stream: \<^verbatim>\<open>complete\<close> and
  the four \<^verbatim>\<open>awaiting_*\<close> types.
\<close>

definition terminal_type :: "string \<Rightarrow> bool" where
  "terminal_type ty =
     (ty = ''complete'' \<or> ty = ''awaiting_round_feedback'' \<or> ty = ''awaiting_collab_feedback''
      \<or> ty = ''awaiting_argument_feedback'' \<or> ty = ''awaiting_user_input'')"

section \<open>voting.js: building the voting view and submitting\<close>

text \<open>
  \<open>updateSubmitButton\<close>. \<^verbatim>\<open>votingState.promptRating\<close> is a number, never
  \<^verbatim>\<open>null\<close> or \<^verbatim>\<open>undefined\<close>, so \<open>hasPromptRating\<close> is true.
\<close>

definition has_text :: "string \<Rightarrow> bool" where
  "has_text f = (str_truthy f \<and> str_truthy (js_trim f))"

definition canSubmit :: "client \<Rightarrow> bool" where
  "canSubmit c =
     (let vs = votingState c;
          hasVotes = (\<exists>r \<in> set (map snd (votes vs)). r > 0);
          hasCandidateFeedback = (\<exists>f \<in> set (map snd (candidateFeedback vs)). has_text f);
          hasOverallFeedback = has_text (overallFeedback vs);
          hasWorkerFeedback = (\<exists>f \<in> set (map snd (workerFeedback vs)). has_text f);
          hasPromptFeedback = has_text (promptFeedback vs);
          hasPromptRating = True;
          hasCandidates = (case candidates (state c) of None \<Rightarrow> False | Some cs \<Rightarrow> length cs > 0)
      in hasCandidates \<or> hasVotes \<or> hasCandidateFeedback \<or> hasOverallFeedback
         \<or> hasWorkerFeedback \<or> hasPromptFeedback \<or> hasPromptRating)"

definition updateSubmitButton :: "client \<Rightarrow> client" where
  "updateSubmitButton c =
     (case submitBtn c of
        None \<Rightarrow> c
      | Some b \<Rightarrow> c\<lparr>submitBtn := Some (b\<lparr>disabled := \<not> canSubmit c\<rparr>)\<rparr>)"

definition initial_votingState :: voting_state where
  "initial_votingState =
     \<lparr>votes = [], candidateFeedback = [], workerFeedback = [], overallFeedback = [],
      synthesizerFeedback = [], promptRating = 0, promptFeedback = []\<rparr>"

text \<open>
  \<open>buildVotingUI\<close>: the voting state is reset; when there is no candidate
  (\<^verbatim>\<open>!candidates || candidates.length === 0\<close>) the warning is shown and the submit button is
  enabled and relabelled, under the source's comment "Enable submit button for
  feedback-only submission"; then \<open>updateSubmitButton\<close> runs. The AI scores, the
  arguments and the workers only feed what is drawn.
\<close>

definition buildVotingUI ::
  "candidate list option \<Rightarrow> json \<Rightarrow> json \<Rightarrow> worker list \<Rightarrow> client \<Rightarrow> client" where
  "buildVotingUI cands aiScores arguments ws c =
     (let c1 = c\<lparr>votingState := initial_votingState\<rparr>;
          c2 = (if cands = None \<or> cands = Some []
                then c1\<lparr>submitBtn :=
                        map_option (\<lambda>b. b\<lparr>disabled := False, textContent := ''Submit Feedback''\<rparr>)
                          (submitBtn c1)\<rparr>
                else c1)
      in updateSubmitButton c2)"

text \<open>
  \<open>submitVotes\<close>, the click handler of the submit button. \<open>reply\<close> is what
  \<^verbatim>\<open>api.post\<close> does with the vote. After a successful vote the finalize stream is
  opened (\<open>runFinalizeStream\<close>).
\<close>

definition submitData :: "voting_state \<Rightarrow> json" where
  "submitData vs =
     JObj [(''votes'', json_of_ints (votes vs)),
           (''candidate_feedback'', json_of_strings (candidateFeedback vs)),
           (''overall_feedback'', JStr (overallFeedback vs)),
           (''worker_feedback'', json_of_strings (workerFeedback vs)),
           (''synthesizer_feedback'', JStr (synthesizerFeedback vs)),
           (''prompt_rating'', JNum (Num (promptRating vs))),
           (''prompt_feedback'', JStr (promptFeedback vs))]"

definition submitVotes :: "(string + json) \<Rightarrow> client \<Rightarrow> client" where
  "submitVotes reply c =
     (if candidates (state c) = None \<or> candidates (state c) = Some []
      then c\<lparr>dialogs := dialogs c @
               [Alert ''No candidates available to vote on. The synthesis may have failed.'']\<rparr>
      else
        (let c1 = c\<lparr>requests := requests c @
                     [api_post (session_path (state c) ''/vote'') (submitData (votingState c))]\<rparr>
         in case reply of
              Inl msg \<Rightarrow>
                c1\<lparr>dialogs := dialogs c1 @ [Alert (''Failed to submit votes: '' @ msg)]\<rparr>
            | Inr result \<Rightarrow>
                (let c2 = c1\<lparr>state := (state c1)\<lparr>votingResult := Some result\<rparr>\<rparr>
                 in c2\<lparr>requests := requests c2 @
                        [EventSourceOpen (''/api'' @ session_path (state c2) ''/finalize'')]\<rparr>)))"

section \<open>app.js: restoring a session after a reload\<close>

text \<open>
  The answer to \<^verbatim>\<open>GET full-state\<close>, in the fields that reach the modelled state.
\<close>

record full_state =
  fs_error :: bool
  fs_prompt :: "string option"
  fs_log_entries :: "log_entry list option"
  fs_workers :: "(string \<times> string option) list"
  fs_current_stage :: string
  fs_candidates :: "candidate list option"
  fs_awaiting_round_feedback :: bool
  fs_current_round :: int
  fs_total_rounds :: int
  fs_round_workers :: "string list"

text \<open>
  The loop of \<open>restoreFullSession\<close> over \<^verbatim>\<open>fullState.workers\<close>: a worker that is
  known gets the persona with the stored id, when there is one.
\<close>

fun restore_personas :: "(string \<times> string option) list \<Rightarrow> app_state \<Rightarrow> app_state" where
  "restore_personas [] st = st"
| "restore_personas ((workerId, pid) # rest) st =
     restore_personas rest
       (case (find (\<lambda>i. worker_id (workers st ! i) = workerId) [0..<length (workers st)],
              pid) of
          (Some workerIndex, Some p) \<Rightarrow>
            (if str_truthy p
             then (case find (\<lambda>q. persona_id q = Some p) (personas st) of
                     Some persona \<Rightarrow>
                       st\<lparr>workers := (workers st)[workerIndex :=
                            (workers st ! workerIndex)\<lparr>worker_persona := persona\<rparr>]\<rparr>
                   | None \<Rightarrow> st)
             else st)
        | _ \<Rightarrow> st)"

text \<open>
  \<open>restoreFullSession\<close>, called once when the page is loaded with a stored session.
  \<open>reply\<close> is what \<^verbatim>\<open>api.get\<close> does; the session and voting modules are loaded. The
  result is the value of the promise and the client once the two timers have fired (the
  log after 100 ms, the view after 150 ms). In the voting stage the voting view is built;
  otherwise, when the session awaits round feedback, \<open>showRoundFeedbackModal\<close> is called
  directly with the round of the server.
\<close>

definition restoreFullSession :: "(string + full_state option) \<Rightarrow> client \<Rightarrow> bool \<times> client" where
  "restoreFullSession reply c =
     (if \<not> opt_truthy (sessionId (state c)) then (False, c)
      else
        (let c1 = c\<lparr>requests := requests c @
                     [HttpGet (''/api'' @ session_path (state c) ''/full-state'')]\<rparr>
         in case reply of
              Inl err \<Rightarrow> (False, c1)
            | Inr None \<Rightarrow> (False, c1)
            | Inr (Some fs) \<Rightarrow>
                (if fs_error fs then (False, c1)
                 else
                   (let st1 = restore_personas (fs_workers fs)
                                ((state c1)\<lparr>prompt := fs_prompt fs\<rparr>);
                        st2 = (if fs_current_stage fs = ''user_voting''
                               then st1\<lparr>candidates := fs_candidates fs\<rparr> else st1);
                        c2 = c1\<lparr>state := st2\<rparr>;
                        c3 = (case fs_log_entries fs of
                                Some entries \<Rightarrow>
                                  appendLog ''system'' None None
                                    ''Session state restored from server'' ''info''
                                    (c2\<lparr>logEntries := entries\<rparr>)
                              | None \<Rightarrow> c2);
                        c4 = (if fs_current_stage fs = ''user_voting''
                              then showView ''voting''
                                     (buildVotingUI (candidates (state c3)) JNull JNull
                                        (workers (state c3)) c3)
                              else if fs_awaiting_round_feedback fs
                              then showRoundFeedbackModal
                                     \<lparr>fe_round = fs_current_round fs,
                                      fe_total_rounds = fs_total_rounds fs,
                                      fe_workers = fs_round_workers fs\<rparr> c3
                              else c3)
                    in (True, c4)))))"

text \<open>
  A server answer for a session that awaits feedback on round 2 of 3, used to exercise
  \<open>restoreFullSession\<close>.
\<close>

definition example_full_state :: full_state where
  "example_full_state =
     \<lparr>fs_error = False, fs_prompt = Some ''Which database should we pick?'',
      fs_log_entries = Some [], fs_workers = [], fs_current_stage = ''worker_refinement_2'',
      fs_candidates = None, fs_awaiting_round_feedback = True, fs_current_round = 2,
      fs_total_rounds = 3, fs_round_workers = [''worker_1'', ''worker_2'']\<rparr>"

section \<open>The server side: Vote Aggregator and Persona Binding Layer\<close>

text \<open>
  The sources hold the browser client only. The two components below run on the server;
  their definitions follow the design description of the system.
\<close>

subsection \<open>Vote Aggregator\<close>

text \<open>
  Modelled from the spec: the normalisation of the Vote Aggregator, whose code is not among
  the sources. A human rank is converted to a 0 to 10 scale, linearly spaced by the rank
  count \<open>k\<close> (with three ranks: 1st gives 10, 2nd 6.67, 3rd 3.33); skip (rank 0) and
  unranked give 0.
\<close>

definition human_score :: "nat \<Rightarrow> int \<Rightarrow> rat" where
  "human_score k rank =
     (if rank \<le> 0 \<or> int k < rank then 0
      else 10 * of_int (int k + 1 - rank) / of_nat k)"

text \<open>
  Modelled from the spec: the weighting of the Vote Aggregator, whose code is not among the
  sources. Combined score = machine score times 0.4 plus human score times 0.6.
\<close>

definition combined_score :: "rat \<Rightarrow> rat \<Rightarrow> rat" where
  "combined_score machine human = machine * (4 / 10) + human * (6 / 10)"

record scored_candidate =
  sc_id :: string
  sc_machine :: rat
  sc_human :: rat
  sc_combined :: rat

text \<open>
  Modelled from the spec: the aggregation of the Vote Aggregator, whose code is not among
  the sources. Its two inputs are the machine scores per candidate and the human ranks (the
  \<^verbatim>\<open>votes\<close> object of the vote request: candidate id to rank); it never re-derives the
  machine scores.
\<close>

definition aggregate :: "nat \<Rightarrow> (string \<times> rat) list \<Rightarrow> int js_object \<Rightarrow> scored_candidate list" where
  "aggregate k machine_scores ranks =
     map (\<lambda>(cid, m).
            (let h = human_score k (case map_of ranks cid of None \<Rightarrow> 0 | Some r \<Rightarrow> r)
             in \<lparr>sc_id = cid, sc_machine = m, sc_human = h,
                 sc_combined = combined_score m h\<rparr>))
         machine_scores"

subsection \<open>Persona Binding Layer\<close>

datatype swap_mode = keep_all | archive | restart

datatype session_status = active | awaiting_input | completed | aborted | failed

datatype swap_error = IllegalSwap | UnknownSlot

record stage_output =
  out_stage :: string
  out_persona :: string
  out_text :: string
  out_hidden :: bool

text \<open>
  A worker slot: its id, the persona bound to it, its output history, and its stage
  cursor, the stage it has last produced an output for (\<open>None\<close> after a reset).
\<close>

record worker_slot =
  slot_id :: string
  slot_persona :: string
  slot_history :: "stage_output list"
  slot_cursor :: "string option"

record audit_entry =
  au_stage :: string
  au_agent :: string
  au_persona :: string
  au_content :: string

record session =
  status :: session_status
  current_stage :: string
  slots :: "worker_slot list"
  audit_log :: "audit_entry list"

text \<open>
  Modelled from the spec: the three swap semantics of the Persona Binding Layer, whose code
  is not among the sources. \<open>keep_all\<close> leaves the history intact (each output keeps the
  persona that produced it), \<open>archive\<close> hides the prior outputs, \<open>restart\<close> clears the
  output history and resets the stage cursor.
\<close>

fun swap_slot :: "swap_mode \<Rightarrow> string \<Rightarrow> worker_slot \<Rightarrow> worker_slot" where
  "swap_slot keep_all p w = w\<lparr>slot_persona := p\<rparr>"
| "swap_slot archive p w =
     w\<lparr>slot_persona := p,
       slot_history := map (\<lambda>out. out\<lparr>out_hidden := True\<rparr>) (slot_history w)\<rparr>"
| "swap_slot restart p w = w\<lparr>slot_persona := p, slot_history := [], slot_cursor := None\<rparr>"

text \<open>
  Modelled from the spec: \<open>swap_persona\<close> of the Stage Engine, whose code is not among
  the sources. A swap is legal only when the session is active or awaiting input; it always
  appends one log entry.
\<close>

definition swap_persona :: "string \<Rightarrow> string \<Rightarrow> swap_mode \<Rightarrow> session \<Rightarrow> swap_error + session" where
  "swap_persona slot p mode s =
     (if status s \<noteq> active \<and> status s \<noteq> awaiting_input then Inl IllegalSwap
      else if slot \<notin> set (map slot_id (slots s)) then Inl UnknownSlot
      else Inr (s\<lparr>slots := map (\<lambda>w. if slot_id w = slot then swap_slot mode p w else w) (slots s),
                  audit_log := audit_log s @
                    [\<lparr>au_stage = current_stage s, au_agent = slot, au_persona = p,
                      au_content = ''persona swap''\<rparr>]\<rparr>))"

text \<open>
  Modelled from the spec: a \<open>run\<close>/\<open>resume\<close> call of the Stage Engine on the current
  stage, whose code is not among the sources. The slots whose cursor is not at the current
  stage execute it, one worker call per slot, in slot order; \<open>gen\<close> is the Inference
  Gateway (slot, persona and stage to text).
\<close>

definition slot_pending :: "string \<Rightarrow> worker_slot \<Rightarrow> bool" where
  "slot_pending stage w = (slot_cursor w \<noteq> Some stage)"

definition worker_calls :: "session \<Rightarrow> string list" where
  "worker_calls s = map slot_id (filter (slot_pending (current_stage s)) (slots s))"

definition run_slot :: "(string \<Rightarrow> string \<Rightarrow> string \<Rightarrow> string) \<Rightarrow> string \<Rightarrow> worker_slot \<Rightarrow> worker_slot" where
  "run_slot gen stage w =
     (if slot_pending stage w
      then w\<lparr>slot_history := slot_history w @
                [\<lparr>out_stage = stage, out_persona = slot_persona w,
                  out_text = gen (slot_id w) (slot_persona w) stage, out_hidden = False\<rparr>],
              slot_cursor := Some stage\<rparr>
      else w)"

definition run_stage :: "(string \<Rightarrow> string \<Rightarrow> string \<Rightarrow> string) \<Rightarrow> session \<Rightarrow> session" where
  "run_stage gen s =
     s\<lparr>slots := map (run_slot gen (current_stage s)) (slots s),
       audit_log := audit_log s @
         map (\<lambda>w. \<lparr>au_stage = current_stage s, au_agent = slot_id w,
                    au_persona = slot_persona w,
                    au_content = gen (slot_id w) (slot_persona w) (current_stage s)\<rparr>)
             (filter (slot_pending (current_stage s)) (slots s))\<rparr>"

definition history_of :: "session \<Rightarrow> string \<Rightarrow> stage_output list option" where
  "history_of s slot = map_option slot_history (find (\<lambda>w. slot_id w = slot) (slots s))"

subsection \<open>Example inputs\<close>

definition example_session :: session where
  "example_session =
     \<lparr>status = awaiting_input, current_stage = ''worker_refinement_1'',
      slots =
        [\<lparr>slot_id = ''worker_1'', slot_persona = ''analyst'',
          slot_history =
            [\<lparr>out_stage = ''worker_drafts'', out_persona = ''analyst'',
              out_text = ''draft 1'', out_hidden = False\<rparr>,
             \<lparr>out_stage = ''worker_refinement_1'', out_persona = ''analyst'',
              out_text = ''refinement 1'', out_hidden = False\<rparr>],
          slot_cursor = Some ''worker_refinement_1''\<rparr>,
         \<lparr>slot_id = ''worker_2'', slot_persona = ''creative'',
          slot_history =
            [\<lparr>out_stage = ''worker_drafts'', out_persona = ''creative'',
              out_text = ''draft 2'', out_hidden = False\<rparr>,
             \<lparr>out_stage = ''worker_refinement_1'', out_persona = ''creative'',
              out_text = ''refinement 2'', out_hidden = False\<rparr>],
          slot_cursor = Some ''worker_refinement_1''\<rparr>],
      audit_log = []\<rparr>"

definition example_gateway :: "string \<Rightarrow> string \<Rightarrow> string \<Rightarrow> string" where
  "example_gateway slot p stage = p @ '' on '' @ stage"

section \<open>Facts about objects\<close>

lemma obj_set_keys:
  "map fst (obj_set k v obj) =
     (if k \<in> set (map fst obj) then map fst obj else map fst obj @ [k])"
proof (induction obj)
  case Nil
  show ?case by simp
next
  case (Cons p obj)
  obtain k' v' where p: "p = (k', v')" by (cases p)
  show ?case using Cons.IH by (simp add: p)
qed

lemma wf_obj_set: "wf_object obj \<Longrightarrow> wf_object (obj_set k v obj)"
  by (simp add: wf_object_def obj_set_keys)

lemma map_of_obj_set: "map_of (obj_set k v obj) = (map_of obj)(k \<mapsto> v)"
  by (induction obj) (auto simp: fun_eq_iff)

lemma wf_clear_rank: "wf_object vs \<Longrightarrow> wf_object (clear_rank c r es vs)"
  by (induction c r es vs rule: clear_rank.induct) (auto simp: wf_obj_set)

lemma map_of_clear_rank:
  "map_of (clear_rank c r es vs) k =
     (if k \<noteq> c \<and> (k, r) \<in> set es then Some 0 else map_of vs k)"
  by (induction c r es vs rule: clear_rank.induct) (auto simp: map_of_obj_set)

lemma rank_unique_map_of:
  "wf_object vs \<Longrightarrow>
     rank_unique vs =
       (\<forall>c1 c2 r. 0 < r \<and> map_of vs c1 = Some r \<and> map_of vs c2 = Some r \<longrightarrow> c1 = c2)"
  unfolding rank_unique_def wf_object_def by fastforce

lemma map_of_setVote:
  "wf_object (votes st) \<Longrightarrow>
     map_of (votes (setVote c r st)) k =
       (if k = c then Some r
        else if 0 < r \<and> map_of (votes st) k = Some r then Some 0
        else map_of (votes st) k)"
  by (simp add: setVote_def Let_def map_of_obj_set map_of_clear_rank obj_entries_def wf_object_def)

lemma wf_setVote: "wf_object (votes st) \<Longrightarrow> wf_object (votes (setVote c r st))"
  by (simp add: setVote_def Let_def wf_obj_set wf_clear_rank)

lemma rank_unique_setVote:
  assumes wf: "wf_object (votes st)" and u: "rank_unique (votes st)"
  shows "rank_unique (votes (setVote c r st))"
proof -
  have wf': "wf_object (votes (setVote c r st))" using wf by (rule wf_setVote)
  have old: "\<And>c1 c2 q. 0 < q \<Longrightarrow> map_of (votes st) c1 = Some q \<Longrightarrow>
      map_of (votes st) c2 = Some q \<Longrightarrow> c1 = c2"
    using u rank_unique_map_of [OF wf] by blast
  show ?thesis
    unfolding rank_unique_map_of [OF wf'] map_of_setVote [OF wf]
    by (auto split: if_splits dest: old)
qed

lemma holders_map_of:
  "wf_object vs \<Longrightarrow> set (holders q vs) = {c. map_of vs c = Some q}"
  by (force simp: holders_def wf_object_def)

lemma setVotes_invariant:
  "wf_object (votes st) \<Longrightarrow> rank_unique (votes st) \<Longrightarrow>
     wf_object (votes (setVotes calls st)) \<and> rank_unique (votes (setVotes calls st))"
proof (induction calls arbitrary: st)
  case Nil
  then show ?case by simp
next
  case (Cons call calls)
  obtain c r where call: "call = (c, r)" by (cases call)
  show ?case
    unfolding call setVotes.simps
    by (rule Cons.IH) (simp_all add: wf_setVote rank_unique_setVote Cons.prems)
qed

section \<open>C8: every rank above 0 has at most one holder\<close>

text \<open>
  C8. After every call to \<open>setVote\<close>, each rank above 0 (so each of 1, 2, 3) is held by at
  most one candidate: assigning a rank above 0 to a candidate resets every other candidate
  that held this rank to 0 (skip) and leaves the candidate as the only holder, and the
  uniqueness of ranks is preserved by every sequence of \<open>setVote\<close> calls.
\<close>

theorem setVote_rank_unique:
  assumes "wf_object (votes st)" and "rank_unique (votes st)"
  shows "rank_unique (votes (setVote c r st))
     \<and> rank_unique (votes (setVotes calls st))
     \<and> (0 < r \<longrightarrow>
          set (holders r (votes (setVote c r st))) = {c}
        \<and> (\<forall>cid. cid \<noteq> c \<and> obj_get (votes st) cid = Some r
              \<longrightarrow> obj_get (votes (setVote c r st)) cid = Some 0))"
proof -
  have wf': "wf_object (votes (setVote c r st))" using assms(1) by (rule wf_setVote)
  have "rank_unique (votes (setVote c r st))"
    using assms by (rule rank_unique_setVote)
  moreover have "rank_unique (votes (setVotes calls st))"
    using setVotes_invariant [OF assms] by simp
  moreover have "set (holders r (votes (setVote c r st))) = {c}" if "0 < r"
    unfolding holders_map_of [OF wf'] map_of_setVote [OF assms(1)]
    using that by (auto split: if_splits)
  moreover have "obj_get (votes (setVote c r st)) cid = Some 0"
    if "0 < r" "cid \<noteq> c" "obj_get (votes st) cid = Some r" for cid
    using that by (simp add: obj_get_def map_of_setVote [OF assms(1)])
  ultimately show ?thesis by blast
qed

theorem setVote_rank_unique_witness:
  "wf_object [(''c1'', 1::int), (''c2'', 2)]
   \<and> rank_unique [(''c1'', 1), (''c2'', 2)]
   \<and> votes (setVote ''c2'' 1
        \<lparr>votes = [(''c1'', 1), (''c2'', 2)], candidateFeedback = [], workerFeedback = [],
         overallFeedback = [], synthesizerFeedback = [], promptRating = 0,
         promptFeedback = []\<rparr>) = [(''c1'', 0), (''c2'', 1)]
   \<and> rank_unique [(''c1'', 0), (''c2'', 1)]
   \<and> set (holders 1 [(''c1'', 0), (''c2'', 1)]) = {''c2''}"
  using setVote_rank_unique [of
      "\<lparr>votes = [(''c1'', 1), (''c2'', 2)], candidateFeedback = [], workerFeedback = [],
        overallFeedback = [], synthesizerFeedback = [], promptRating = 0,
        promptFeedback = []\<rparr>" "''c2''" 1 "[]"]
  by (simp add: wf_object_def rank_unique_def setVote_def obj_entries_def holders_def)

section \<open>Facts about the client functions\<close>

lemma appendLog_frame [simp]:
  "state (appendLog stage w pn content ty c) = state c"
  "requests (appendLog stage w pn content ty c) = requests c"
  "sessionStorage (appendLog stage w pn content ty c) = sessionStorage c"
  "dialogs (appendLog stage w pn content ty c) = dialogs c"
  "elements (appendLog stage w pn content ty c) = elements c"
  by (simp_all add: appendLog_def)

lemma clearLog_frame [simp]:
  "state (clearLog c) = state c"
  "requests (clearLog c) = requests c"
  "sessionStorage (clearLog c) = sessionStorage c"
  "elements (clearLog c) = elements c"
  "dialogs (clearLog c) = dialogs c"
  by (simp_all add: clearLog_def)

lemma clearSessionState_frame [simp]:
  "state (clearSessionState c) = state c"
  "requests (clearSessionState c) = requests c"
  "elements (clearSessionState c) = elements c"
  "dialogs (clearSessionState c) = dialogs c"
  by (simp_all add: clearSessionState_def)

lemma initializeWorkerCards_frame [simp]:
  "sessionId (state (initializeWorkerCards c)) = sessionId (state c)"
  "sessionActive (state (initializeWorkerCards c)) = sessionActive (state c)"
  "config (state (initializeWorkerCards c)) = config (state c)"
  "requests (initializeWorkerCards c) = requests c"
  "sessionStorage (initializeWorkerCards c) = sessionStorage c"
  "dialogs (initializeWorkerCards c) = dialogs c"
  by (simp_all add: initializeWorkerCards_def Let_def)

lemma updateWorkerRoster_frame [simp]:
  "sessionId (state (updateWorkerRoster c)) = sessionId (state c)"
  "sessionActive (state (updateWorkerRoster c)) = sessionActive (state c)"
  "requests (updateWorkerRoster c) = requests c"
  "sessionStorage (updateWorkerRoster c) = sessionStorage c"
  "dialogs (updateWorkerRoster c) = dialogs c"
  by (simp_all add: updateWorkerRoster_def)

lemma getItem_removeItem:
  "getItem (removeItem k' store) k = (if k = k' then None else getItem store k)"
  unfolding getItem_def removeItem_def by (induction store) auto

lemma clearSessionState_storage:
  "getItem (sessionStorage (clearSessionState c)) k =
     (if k \<in> {STORAGE_SESSION_ID, STORAGE_SESSION_ACTIVE, STORAGE_CURRENT_VIEW} then None
      else getItem (sessionStorage c) k)"
  by (simp add: clearSessionState_def getItem_removeItem)

lemma showView_frame:
  "sessionId (state (showView v c)) = sessionId (state c)"
  "sessionActive (state (showView v c)) = sessionActive (state c)"
  "requests (showView v c) = requests c"
  "dialogs (showView v c) = dialogs c"
  by (simp_all add: showView_def saveSessionState_def clearSessionState_def split: option.splits)

lemma showView_no_session_storage:
  "sessionId (state c) = None \<Longrightarrow>
   getItem (sessionStorage (showView v c)) k =
     (if has_element c (''view-'' @ v)
         \<and> k \<in> {STORAGE_SESSION_ID, STORAGE_SESSION_ACTIVE, STORAGE_CURRENT_VIEW}
      then None else getItem (sessionStorage c) k)"
  by (simp add: showView_def saveSessionState_def clearSessionState_storage)

lemma parseInt_empty: "parseInt [] = NaN"
  by (simp add: parseInt_def)

lemma parseInt_letters: "parseInt ''abc'' = NaN"
  by (simp add: parseInt_def radix_digit_def digit_value_def is_js_space_def)

lemma parseInt_digit: "parseInt ''7'' = Num 7"
  by (simp add: parseInt_def radix_digit_def digit_value_def is_js_space_def)

text \<open>A number typed into the control is clamped to the bounds of the mode.\<close>

lemma workerCount_change_numeric:
  "parseInt v = Num n \<Longrightarrow>
     fst (workerCount_change v c) = Num (min (max n 2) (maxWorkers (state c)))
   \<and> 2 \<le> min (max n 2) (maxWorkers (state c))
   \<and> min (max n 2) (maxWorkers (state c)) \<le> maxWorkers (state c)"
  by (simp add: workerCount_change_def maxWorkers_def Let_def)

section \<open>C9: \<open>setMode\<close> during an active session\<close>

text \<open>
  C9. For every call to \<open>setMode\<close> while a session is active
  (\<^verbatim>\<open>state.sessionActive\<close> is true), no request is issued, and the application state
  (\<^verbatim>\<open>state.currentMode\<close>, \<^verbatim>\<open>state.config\<close> and every other field) and
  \<^verbatim>\<open>sessionStorage\<close> are unchanged: the client differs from the one before only by the
  alert shown.
\<close>

theorem setMode_active_noop:
  assumes "sessionActive (state c)"
  shows "state (setMode reply mode c) = state c
       \<and> requests (setMode reply mode c) = requests c
       \<and> sessionStorage (setMode reply mode c) = sessionStorage c
       \<and> setMode reply mode c = c\<lparr>dialogs := dialogs (setMode reply mode c)\<rparr>
       \<and> length (dialogs (setMode reply mode c)) = Suc (length (dialogs c))"
  using assms by (simp add: setMode_def)

theorem setMode_active_noop_witness:
  "sessionActive (state active_client)
   \<and> state (setMode (Inr \<lparr>cfg_mode = ''32GB'', worker_count = Some (Num 3)\<rparr>) ''32GB'' active_client)
       = state active_client
   \<and> currentMode (state (setMode (Inr \<lparr>cfg_mode = ''32GB'', worker_count = Some (Num 3)\<rparr>)
        ''32GB'' active_client)) = ''16GB''
   \<and> requests (setMode (Inr \<lparr>cfg_mode = ''32GB'', worker_count = Some (Num 3)\<rparr>) ''32GB''
        active_client) = []"
proof -
  have h: "sessionActive (state active_client)"
    by (simp add: active_client_def initial_client_def initial_state_def)
  have m: "currentMode (state active_client) = ''16GB''"
    by (simp add: active_client_def initial_client_def initial_state_def)
  have r: "requests active_client = []"
    by (simp add: active_client_def initial_client_def)
  show ?thesis
    using h m r
      setMode_active_noop [OF h, of "Inr \<lparr>cfg_mode = ''32GB'', worker_count = Some (Num 3)\<rparr>" "''32GB''"]
    by simp
qed

section \<open>C10: \<open>endCouncil\<close> without confirmation\<close>

text \<open>
  C10. Every call to \<open>endCouncil\<close> with \<open>showConfirm = false\<close> returns true and leaves
  the client session state cleared: \<^verbatim>\<open>state.sessionId\<close> is null,
  \<^verbatim>\<open>state.sessionActive\<close> is false, and the three \<^verbatim>\<open>sessionStorage\<close> keys (session
  id, active flag, current view) are removed. It issues no request, so nothing is sent to
  the server about the session.
\<close>

theorem endCouncil_no_confirm:
  "fst (endCouncil answer sessionModule False c) = True
   \<and> sessionId (state (snd (endCouncil answer sessionModule False c))) = None
   \<and> sessionActive (state (snd (endCouncil answer sessionModule False c))) = False
   \<and> getItem (sessionStorage (snd (endCouncil answer sessionModule False c)))
        STORAGE_SESSION_ID = None
   \<and> getItem (sessionStorage (snd (endCouncil answer sessionModule False c)))
        STORAGE_SESSION_ACTIVE = None
   \<and> getItem (sessionStorage (snd (endCouncil answer sessionModule False c)))
        STORAGE_CURRENT_VIEW = None
   \<and> requests (snd (endCouncil answer sessionModule False c)) = requests c
   \<and> dialogs (snd (endCouncil answer sessionModule False c)) = dialogs c"
  by (simp add: endCouncil_def Let_def showView_frame showView_no_session_storage
      clearSessionState_storage)

section \<open>C6: the worker-count control\<close>

text \<open>
  C6. The claim is that every value entered in the worker-count control, non-numeric input
  included, results in a count clamped to at least 2 and at most 3 (16GB) or 4 (32GB). The
  \<^verbatim>\<open>change\<close> listener does not do that for an empty or non-numeric value: there
  \<^verbatim>\<open>parseInt\<close> gives NaN, \<^verbatim>\<open>Math.min(Math.max(NaN, 2), maxWorkers)\<close> is NaN, and NaN
  is written to the control and stored in \<^verbatim>\<open>state.config.worker_count\<close>, in every
  client state. The add-worker listener beside it reads the same control with
  \<^verbatim>\<open>parseInt(...) || 2\<close> and never writes NaN.
\<close>

theorem workerCount_change_non_numeric:
  "fst (workerCount_change [] c) = NaN
   \<and> config (state (snd (workerCount_change [] c))) =
       map_option (\<lambda>cfg. cfg\<lparr>worker_count := Some NaN\<rparr>) (config (state c))
   \<and> fst (workerCount_change ''abc'' c) = NaN
   \<and> config (state (snd (workerCount_change ''abc'' c))) =
       map_option (\<lambda>cfg. cfg\<lparr>worker_count := Some NaN\<rparr>) (config (state c))
   \<and> config (state (snd (workerCount_change [] active_client))) =
       Some \<lparr>cfg_mode = ''16GB'', worker_count = Some NaN\<rparr>
   \<and> fst (addWorker_click v c) \<noteq> Some NaN"
  by (simp add: workerCount_change_def updateWorkerCount_def parseInt_empty parseInt_letters
      addWorker_click_def Let_def num_or_def maxWorkers_def active_client_def
      initial_client_def initial_state_def)

section \<open>C5: the bodies of the feedback requests\<close>

lemma is_post_api_post [simp]: "is_post (api_post endpoint data)"
  by (simp add: api_post_def)

lemma continuePipeline_posts [simp]:
  "filter is_post (requests (continuePipeline c)) = filter is_post (requests c)"
  by (simp add: continuePipeline_def)

lemma submitRoundFeedback_posts:
  "filter is_post (requests (submitRoundFeedback reply skip c)) =
     filter is_post (requests c) @
       [api_post (session_path (state c) ''/round-feedback'')
          (JObj [(''round'', JNum (Num (currentRound c))),
                 (''worker_feedback'', json_of_strings (roundWorkerFeedback c)),
                 (''skip_to_synthesis'', JBool skip)])]"
  by (cases reply) (simp_all add: submitRoundFeedback_def Let_def)

lemma submitCollabFeedback_posts:
  "filter is_post (requests (submitCollabFeedback reply skip c)) =
     filter is_post (requests c) @
       [api_post (session_path (state c) ''/collab-feedback'')
          (JObj [(''round'', JNum (Num (currentRound c))),
                 (''worker_feedback'', json_of_strings (collabWorkerFeedback c)),
                 (''skip_to_synthesis'', JBool skip)])]"
  by (cases reply) (simp_all add: submitCollabFeedback_def Let_def)

lemma submitArgumentFeedback_posts:
  "filter is_post (requests (submitArgumentFeedback reply skip c)) =
     filter is_post (requests c) @
       [api_post (session_path (state c) ''/argument-feedback'')
          (JObj [(''round'', JNum (Num (currentRound c))),
                 (''worker_feedback'', json_of_strings (argumentWorkerFeedback c)),
                 (''skip_to_voting'', JBool skip)])]"
  by (cases reply) (simp_all add: submitArgumentFeedback_def Let_def)

lemma currentRound_frame [simp]:
  "currentRound (appendLog stage w pn content ty c) = currentRound c"
  "currentRound (showRoundFeedbackModal ev c) = currentRound c"
  "currentRound (showView v c) = currentRound c"
  "currentRound (buildVotingUI cands sc ar ws c) = currentRound c"
  by (simp_all add: appendLog_def showRoundFeedbackModal_def showView_def saveSessionState_def
      clearSessionState_def buildVotingUI_def updateSubmitButton_def Let_def
      split: option.splits)

lemma restoreFullSession_currentRound:
  "currentRound (snd (restoreFullSession reply c)) = currentRound c"
proof (cases reply)
  case (Inl err)
  then show ?thesis by (simp add: restoreFullSession_def Let_def)
next
  case (Inr r)
  show ?thesis
  proof (cases r)
    case None
    then show ?thesis using Inr by (simp add: restoreFullSession_def Let_def)
  next
    case (Some fs)
    then show ?thesis using Inr
      by (simp add: restoreFullSession_def Let_def split: option.splits)
  qed
qed

lemma handle_awaiting_round_feedback_state:
  "currentRound (handle_awaiting_round_feedback ev c) = fe_round ev"
  "roundWorkerFeedback (handle_awaiting_round_feedback ev c) = []"
  "state (handle_awaiting_round_feedback ev c) = state c"
  "requests (handle_awaiting_round_feedback ev c) = requests c"
  by (simp_all add: handle_awaiting_round_feedback_def showRoundFeedbackModal_def appendLog_def)

lemma restore_example:
  "currentRound (snd (restoreFullSession (Inr (Some example_full_state)) active_client)) = 0"
  "roundWorkerFeedback (snd (restoreFullSession (Inr (Some example_full_state)) active_client)) = []"
  "sessionId (state (snd (restoreFullSession (Inr (Some example_full_state)) active_client)))
     = Some ''5f2c9a1e''"
  "filter is_post (requests (snd (restoreFullSession (Inr (Some example_full_state))
     active_client))) = []"
  "map_of (elementText (snd (restoreFullSession (Inr (Some example_full_state)) active_client)))
     ''round-feedback-title'' = Some ''Round 2 Complete''"
  by (simp_all add: restoreFullSession_def example_full_state_def active_client_def
      initial_client_def initial_state_def opt_truthy_def str_truthy_def Let_def
      showRoundFeedbackModal_def appendLog_def number_text_def map_of_obj_set)

text \<open>
  C5. The claim is that every feedback submission sends a body of exactly the round
  number, the per-worker feedback map and one boolean skip flag. The three fields are sent,
  by all three submissions, in every client state and whatever the server answers; and when
  the dialog was raised by an \<^verbatim>\<open>awaiting_round_feedback\<close> event the first field is the
  round of that event. But \<open>restoreFullSession\<close> raises the dialog without setting the
  round counter of the session module, which it never touches: after a reload in a session
  that awaits feedback on round 2, the dialog is titled "Round 2 Complete" and the request
  carries round 0.
\<close>

theorem feedback_request_bodies:
  "filter is_post (requests (submitRoundFeedback reply skip c)) =
     filter is_post (requests c) @
       [HttpPost (''/api/session/''
                  @ (case sessionId (state c) of None \<Rightarrow> ''null'' | Some sid \<Rightarrow> sid)
                  @ ''/round-feedback'')
          (JObj [(''round'', JNum (Num (currentRound c))),
                 (''worker_feedback'', JObj (map (\<lambda>(w, f). (w, JStr f)) (roundWorkerFeedback c))),
                 (''skip_to_synthesis'', JBool skip)])]
   \<and> filter is_post (requests (submitCollabFeedback reply skip c)) =
     filter is_post (requests c) @
       [HttpPost (''/api/session/''
                  @ (case sessionId (state c) of None \<Rightarrow> ''null'' | Some sid \<Rightarrow> sid)
                  @ ''/collab-feedback'')
          (JObj [(''round'', JNum (Num (currentRound c))),
                 (''worker_feedback'', JObj (map (\<lambda>(w, f). (w, JStr f)) (collabWorkerFeedback c))),
                 (''skip_to_synthesis'', JBool skip)])]
   \<and> filter is_post (requests (submitArgumentFeedback reply skip c)) =
     filter is_post (requests c) @
       [HttpPost (''/api/session/''
                  @ (case sessionId (state c) of None \<Rightarrow> ''null'' | Some sid \<Rightarrow> sid)
                  @ ''/argument-feedback'')
          (JObj [(''round'', JNum (Num (currentRound c))),
                 (''worker_feedback'',
                  JObj (map (\<lambda>(w, f). (w, JStr f)) (argumentWorkerFeedback c))),
                 (''skip_to_voting'', JBool skip)])]
   \<and> filter is_post (requests (submitRoundFeedback reply skip
         (handle_awaiting_round_feedback ev c))) =
     filter is_post (requests c) @
       [HttpPost (''/api/session/''
                  @ (case sessionId (state c) of None \<Rightarrow> ''null'' | Some sid \<Rightarrow> sid)
                  @ ''/round-feedback'')
          (JObj [(''round'', JNum (Num (fe_round ev))), (''worker_feedback'', JObj []),
                 (''skip_to_synthesis'', JBool skip)])]
   \<and> currentRound (snd (restoreFullSession r c)) = currentRound c
   \<and> map_of (elementText (snd (restoreFullSession (Inr (Some example_full_state))
         active_client))) ''round-feedback-title'' = Some ''Round 2 Complete''
   \<and> filter is_post (requests (submitRoundFeedback reply False
         (snd (restoreFullSession (Inr (Some example_full_state)) active_client)))) =
       [HttpPost ''/api/session/5f2c9a1e/round-feedback''
          (JObj [(''round'', JNum (Num 0)), (''worker_feedback'', JObj []),
                 (''skip_to_synthesis'', JBool False)])]"
proof -
  have 1: "filter is_post (requests (submitRoundFeedback reply skip c)) =
     filter is_post (requests c) @
       [HttpPost (''/api/session/''
                  @ (case sessionId (state c) of None \<Rightarrow> ''null'' | Some sid \<Rightarrow> sid)
                  @ ''/round-feedback'')
          (JObj [(''round'', JNum (Num (currentRound c))),
                 (''worker_feedback'', JObj (map (\<lambda>(w, f). (w, JStr f)) (roundWorkerFeedback c))),
                 (''skip_to_synthesis'', JBool skip)])]" for reply skip c
    using submitRoundFeedback_posts [of reply skip c]
    by (simp add: api_post_def json_of_strings_def session_path_def)
  have 2: "filter is_post (requests (submitCollabFeedback reply skip c)) =
     filter is_post (requests c) @
       [HttpPost (''/api/session/''
                  @ (case sessionId (state c) of None \<Rightarrow> ''null'' | Some sid \<Rightarrow> sid)
                  @ ''/collab-feedback'')
          (JObj [(''round'', JNum (Num (currentRound c))),
                 (''worker_feedback'', JObj (map (\<lambda>(w, f). (w, JStr f)) (collabWorkerFeedback c))),
                 (''skip_to_synthesis'', JBool skip)])]"
    using submitCollabFeedback_posts [of reply skip c]
    by (simp add: api_post_def json_of_strings_def session_path_def)
  have 3: "filter is_post (requests (submitArgumentFeedback reply skip c)) =
     filter is_post (requests c) @
       [HttpPost (''/api/session/''
                  @ (case sessionId (state c) of None \<Rightarrow> ''null'' | Some sid \<Rightarrow> sid)
                  @ ''/argument-feedback'')
          (JObj [(''round'', JNum (Num (currentRound c))),
                 (''worker_feedback'',
                  JObj (map (\<lambda>(w, f). (w, JStr f)) (argumentWorkerFeedback c))),
                 (''skip_to_voting'', JBool skip)])]"
    using submitArgumentFeedback_posts [of reply skip c]
    by (simp add: api_post_def json_of_strings_def session_path_def)
  have 4: "filter is_post (requests (submitRoundFeedback reply skip
         (handle_awaiting_round_feedback ev c))) =
     filter is_post (requests c) @
       [HttpPost (''/api/session/''
                  @ (case sessionId (state c) of None \<Rightarrow> ''null'' | Some sid \<Rightarrow> sid)
                  @ ''/round-feedback'')
          (JObj [(''round'', JNum (Num (fe_round ev))), (''worker_feedback'', JObj []),
                 (''skip_to_synthesis'', JBool skip)])]"
    unfolding 1 by (simp add: handle_awaiting_round_feedback_state)
  have 5: "currentRound (snd (restoreFullSession r c)) = currentRound c"
    by (rule restoreFullSession_currentRound)
  have 6: "map_of (elementText (snd (restoreFullSession (Inr (Some example_full_state))
         active_client))) ''round-feedback-title'' = Some ''Round 2 Complete''"
    by (rule restore_example(5))
  have 7: "filter is_post (requests (submitRoundFeedback reply False
         (snd (restoreFullSession (Inr (Some example_full_state)) active_client)))) =
       [HttpPost ''/api/session/5f2c9a1e/round-feedback''
          (JObj [(''round'', JNum (Num 0)), (''worker_feedback'', JObj []),
                 (''skip_to_synthesis'', JBool False)])]"
    unfolding 1 by (simp add: restore_example)
  show ?thesis using 1 2 3 4 5 6 7 by (intro conjI)
qed

section \<open>C3: when the client closes an event stream\<close>

lemma closed_stream_steps: "es_closed es \<Longrightarrow> stream_steps returns kind sigs es = es"
proof (induction sigs)
  case Nil
  show ?case by simp
next
  case (Cons s sigs)
  have "stream_step returns kind s es = es" using Cons.prems by (cases s) simp_all
  then show ?case using Cons by simp
qed

lemma closing_message:
  assumes "\<not> es_closed es" and "returns ev" and "closes_on kind (ev_type ev)"
  shows "stream_steps returns kind (Message ev # sigs) es =
     es\<lparr>es_handled := es_handled es @ [ev], es_closed := True\<rparr>"
  using assms by (simp add: closed_stream_steps)

lemma closes_on_only:
  "closes_on kind ty \<Longrightarrow> terminal_type ty \<or> (kind = DiversifyStream \<and> ty = ''error'')"
  by (cases kind)
     (auto simp: runPipeline_closes_def continuePipeline_closes_def diversifyWorkers_closes_def
        terminal_type_def)


text \<open>
  C3, as stated, fails. The claim is that a run, continue or diversify stream is closed
  exactly when an event of type \<^verbatim>\<open>complete\<close> or of one of the four \<^verbatim>\<open>awaiting_*\<close>
  types is received. The diversify stream is also closed by an \<^verbatim>\<open>error\<close> event, which
  is none of these types; and the run stream, open, is still open after an
  \<^verbatim>\<open>awaiting_round_feedback\<close> event, which is one of them, even when the event is
  handled without an exception.
\<close>

theorem stream_close_counterexample:
  "closes_on DiversifyStream ''error'' \<and> \<not> terminal_type ''error''
   \<and> es_closed (stream_step (\<lambda>ev. True) DiversifyStream
        (Message \<lparr>ev_type = ''error'', ev_worker_id = None, ev_payload = []\<rparr>)
        new_event_source)
   \<and> terminal_type ''awaiting_round_feedback''
   \<and> \<not> es_closed (stream_step (\<lambda>ev. True) RunStream
          (Message \<lparr>ev_type = ''awaiting_round_feedback'', ev_worker_id = None,
                    ev_payload = []\<rparr>)
          new_event_source)"
  by (simp add: diversifyWorkers_closes_def terminal_type_def runPipeline_closes_def
      new_event_source_def)

text \<open>
  C3, amended. The client closes an open stream only on a connection error or after
  handling, without an exception, an event of type \<^verbatim>\<open>complete\<close>, of one of the four
  \<^verbatim>\<open>awaiting_*\<close> types or, on the diversify stream, of type \<^verbatim>\<open>error\<close>. It does
  close the stream on a connection error, and after handling without an exception:
  \<^verbatim>\<open>complete\<close> on every stream, \<^verbatim>\<open>awaiting_user_input\<close> on a run or continue
  stream, \<^verbatim>\<open>awaiting_round_feedback\<close> or \<^verbatim>\<open>awaiting_argument_feedback\<close> on a
  continue stream, \<^verbatim>\<open>error\<close> on a diversify stream. The closing event is the last one
  handled: the stream stays closed and handles nothing that arrives afterwards.
\<close>

theorem stream_closes:
  assumes "\<not> es_closed es"
  shows "(es_closed (stream_step returns kind sig es) \<longrightarrow>
          (case sig of
             Message ev \<Rightarrow>
               returns ev
               \<and> (terminal_type (ev_type ev) \<or> (kind = DiversifyStream \<and> ev_type ev = ''error''))
           | Unparsable \<Rightarrow> False
           | ConnectionError \<Rightarrow> True))
   \<and> (returns ev
        \<and> (ev_type ev = ''complete''
           \<or> ((kind = RunStream \<or> kind = ContinueStream) \<and> ev_type ev = ''awaiting_user_input'')
           \<or> (kind = ContinueStream
              \<and> (ev_type ev = ''awaiting_round_feedback''
                 \<or> ev_type ev = ''awaiting_argument_feedback''))
           \<or> (kind = DiversifyStream \<and> ev_type ev = ''error''))
        \<longrightarrow> stream_steps returns kind (Message ev # sigs) es =
              es\<lparr>es_handled := es_handled es @ [ev], es_closed := True\<rparr>)
   \<and> stream_steps returns kind (ConnectionError # sigs) es = es\<lparr>es_closed := True\<rparr>"
proof -
  have only: "es_closed (stream_step returns kind sig es) \<longrightarrow>
          (case sig of
             Message ev \<Rightarrow>
               returns ev
               \<and> (terminal_type (ev_type ev) \<or> (kind = DiversifyStream \<and> ev_type ev = ''error''))
           | Unparsable \<Rightarrow> False
           | ConnectionError \<Rightarrow> True)"
    using assms by (cases sig) (auto dest: closes_on_only)
  have listed: "stream_steps returns kind (Message ev # sigs) es =
              es\<lparr>es_handled := es_handled es @ [ev], es_closed := True\<rparr>"
    if "returns ev" and "ev_type ev = ''complete''
           \<or> ((kind = RunStream \<or> kind = ContinueStream) \<and> ev_type ev = ''awaiting_user_input'')
           \<or> (kind = ContinueStream
              \<and> (ev_type ev = ''awaiting_round_feedback''
                 \<or> ev_type ev = ''awaiting_argument_feedback''))
           \<or> (kind = DiversifyStream \<and> ev_type ev = ''error'')"
  proof -
    have "closes_on kind (ev_type ev)"
      using that(2)
      by (cases kind)
         (auto simp: runPipeline_closes_def continuePipeline_closes_def
            diversifyWorkers_closes_def)
    with assms that(1) show ?thesis by (rule closing_message)
  qed
  have err: "stream_steps returns kind (ConnectionError # sigs) es = es\<lparr>es_closed := True\<rparr>"
    using assms by (simp add: closed_stream_steps)
  show ?thesis using only listed err by blast
qed

theorem stream_closes_witness:
  "\<not> es_closed \<lparr>es_closed = False, es_handled = [worker_complete_event ''worker_1'']\<rparr>
   \<and> es_closed (stream_step (\<lambda>ev. True) ContinueStream
        (Message ((worker_complete_event ''worker_1'')\<lparr>ev_type := ''awaiting_round_feedback''\<rparr>))
        \<lparr>es_closed = False, es_handled = [worker_complete_event ''worker_1'']\<rparr>)
   \<and> terminal_type ''awaiting_round_feedback''
   \<and> stream_steps (\<lambda>ev. True) ContinueStream
       [Message ((worker_complete_event ''worker_1'')\<lparr>ev_type := ''awaiting_round_feedback''\<rparr>),
        Message (worker_complete_event ''worker_2'')]
       \<lparr>es_closed = False, es_handled = [worker_complete_event ''worker_1'']\<rparr>
     = \<lparr>es_closed = True,
        es_handled =
          [worker_complete_event ''worker_1'',
           (worker_complete_event ''worker_1'')\<lparr>ev_type := ''awaiting_round_feedback''\<rparr>]\<rparr>"
proof -
  let ?es = "\<lparr>es_closed = False, es_handled = [worker_complete_event ''worker_1'']\<rparr>"
  let ?ev = "(worker_complete_event ''worker_1'')\<lparr>ev_type := ''awaiting_round_feedback''\<rparr>"
  have h: "\<not> es_closed ?es" by simp
  have ty: "ev_type ?ev = ''awaiting_round_feedback''" by simp
  have t: "terminal_type ''awaiting_round_feedback''" by (simp add: terminal_type_def)
  have cl: "es_closed (stream_step (\<lambda>ev. True) ContinueStream (Message ?ev) ?es)"
    by (simp add: continuePipeline_closes_def)
  note T = stream_closes [OF h, where returns = "\<lambda>ev. True" and kind = ContinueStream
      and sig = "Message ?ev" and ev = ?ev and sigs = "[Message (worker_complete_event ''worker_2'')]"]
  have steps: "stream_steps (\<lambda>ev. True) ContinueStream
       [Message ?ev, Message (worker_complete_event ''worker_2'')] ?es
     = ?es\<lparr>es_handled := es_handled ?es @ [?ev], es_closed := True\<rparr>"
    using T ty by blast
  show ?thesis using h cl t steps by simp
qed

section \<open>C4: a stream that loses its connection\<close>

lemma onerror_requests [simp]:
  "requests (runPipeline_onerror c) = requests c"
  "requests (continuePipeline_onerror c) = requests c"
  "requests (diversifyWorkers_onerror c) = requests c"
  by (simp_all add: runPipeline_onerror_def continuePipeline_onerror_def
      diversifyWorkers_onerror_def)




section \<open>C1: submitting with no candidates\<close>

text \<open>
  C1. The claim is that with an empty candidate set the voting view permits a feedback-only
  submission and that submitting succeeds rather than being rejected. \<open>buildVotingUI\<close>
  does enable the submit button and labels it "Submit Feedback", but \<open>submitVotes\<close>
  rejects the click: with \<^verbatim>\<open>state.candidates\<close> empty it shows an alert and returns, and
  neither the vote request nor the finalize stream is issued, whatever was typed as
  feedback.
\<close>

theorem submitVotes_rejects_empty_candidates:
  "submitBtn (buildVotingUI (Some []) aiScores arguments ws
       (c\<lparr>state := (state c)\<lparr>candidates := Some []\<rparr>, submitBtn := Some b\<rparr>))
     = Some \<lparr>disabled = False, textContent = ''Submit Feedback''\<rparr>
   \<and> requests (submitVotes reply
       ((buildVotingUI (Some []) aiScores arguments ws
          (c\<lparr>state := (state c)\<lparr>candidates := Some []\<rparr>, submitBtn := Some b\<rparr>))
        \<lparr>votingState := vs\<rparr>))
     = requests c
   \<and> dialogs (submitVotes reply
       ((buildVotingUI (Some []) aiScores arguments ws
          (c\<lparr>state := (state c)\<lparr>candidates := Some []\<rparr>, submitBtn := Some b\<rparr>))
        \<lparr>votingState := vs\<rparr>))
     = dialogs c @ [Alert ''No candidates available to vote on. The synthesis may have failed.'']"
  by (simp add: buildVotingUI_def updateSubmitButton_def canSubmit_def submitVotes_def Let_def)

section \<open>C2: the combined score\<close>

text \<open>
  C2. For every candidate the aggregated combined score is the machine score times 0.4 plus
  the human score times 0.6, in exact rational arithmetic; the aggregation keeps the
  candidates and their machine scores as given. In particular machine score 8 with the
  first of three ranks, normalised to 10, gives exactly 9.2.
\<close>

theorem combined_score_weighting:
  "(\<forall>sc \<in> set (aggregate k machine_scores ranks).
       sc_combined sc = sc_machine sc * (4 / 10) + sc_human sc * (6 / 10))
   \<and> map sc_id (aggregate k machine_scores ranks) = map fst machine_scores
   \<and> map sc_machine (aggregate k machine_scores ranks) = map snd machine_scores
   \<and> human_score 3 1 = 10
   \<and> combined_score 8 (human_score 3 1) = 92 / 10"
  by (auto simp: aggregate_def combined_score_def human_score_def Let_def)

theorem combined_score_weighting_witness:
  "aggregate 3 [(''candidate_1'', 8), (''candidate_2'', 5)]
       [(''candidate_1'', 1), (''candidate_2'', 0)]
     = [\<lparr>sc_id = ''candidate_1'', sc_machine = 8, sc_human = 10, sc_combined = 92 / 10\<rparr>,
        \<lparr>sc_id = ''candidate_2'', sc_machine = 5, sc_human = 0, sc_combined = 2\<rparr>]
   \<and> (92 / 10 :: rat) = 8 * (4 / 10) + 10 * (6 / 10)
   \<and> (2 :: rat) = 5 * (4 / 10) + 0 * (6 / 10)"
  using combined_score_weighting [of 3 "[(''candidate_1'', 8), (''candidate_2'', 5)]"
      "[(''candidate_1'', 1), (''candidate_2'', 0)]"]
  by (simp add: aggregate_def combined_score_def human_score_def)

section \<open>C7: a persona swap with mode restart\<close>

text \<open>
  What the client does for a restart swap during a session (\<open>confirmSwap\<close> in app.js):
  it posts the worker, the persona and the action, and when the server reports the state
  cleared it replaces the text of that worker's output, and of no other worker's.
\<close>

lemma confirmSwap_restart_client:
  assumes "currentSwapWorker c = Some w" and "w \<noteq> []"
    and "sessionId (state c) = Some sid" and "sid \<noteq> []"
  shows "requests (confirmSwap newPersonaId ''restart''
            (Inr \<lparr>new_persona_name = name, state_cleared = True\<rparr>) c) =
       requests c @
         [api_post (''/session/'' @ sid @ ''/swap-persona'')
            (JObj [(''worker_id'', JStr w), (''persona_id'', JStr newPersonaId),
                   (''action'', JStr ''restart'')])]
   \<and> (\<forall>k. k \<noteq> ''persona-'' @ w \<and> k \<noteq> ''output-'' @ w \<longrightarrow>
          map_of (elementText (confirmSwap newPersonaId ''restart''
            (Inr \<lparr>new_persona_name = name, state_cleared = True\<rparr>) c)) k
          = map_of (elementText c) k)
   \<and> map_of (elementText (confirmSwap newPersonaId ''restart''
            (Inr \<lparr>new_persona_name = name, state_cleared = True\<rparr>) c)) (''output-'' @ w)
       = Some ''Persona swapped. Waiting for re-run...''"
  using assms
  by (simp add: confirmSwap_def opt_truthy_def str_truthy_def closeSwapModal_def Let_def
      map_of_obj_set)

lemma swap_slot_id [simp]: "slot_id (swap_slot mode p w) = slot_id w"
  by (cases mode) simp_all

lemma run_slot_id [simp]: "slot_id (run_slot gen stage w) = slot_id w"
  by (simp add: run_slot_def)

lemma find_map_if_same:
  assumes "\<And>w. slot_id (f w) = slot_id w"
  shows "find (\<lambda>w. slot_id w = slot) (map (\<lambda>w. if slot_id w = slot then f w else w) ws) =
     map_option f (find (\<lambda>w. slot_id w = slot) ws)"
  by (induction ws) (simp_all add: assms)

lemma find_map_if_other:
  assumes "i \<noteq> slot" and "\<And>w. slot_id (f w) = slot_id w"
  shows "find (\<lambda>w. slot_id w = i) (map (\<lambda>w. if slot_id w = slot then f w else w) ws) =
     find (\<lambda>w. slot_id w = i) ws"
  using assms(1) by (induction ws) (auto simp: assms(2))

lemma find_map_all:
  assumes "\<And>w. slot_id (f w) = slot_id w"
  shows "find (\<lambda>w. slot_id w = i) (map f ws) = map_option f (find (\<lambda>w. slot_id w = i) ws)"
proof (induction ws)
  case Nil
  show ?case by simp
next
  case (Cons w ws)
  show ?case using Cons.IH by (simp add: assms)
qed

lemma find_slot_Some:
  "i \<in> set (map slot_id ws) \<Longrightarrow> \<exists>w. find (\<lambda>w. slot_id w = i) ws = Some w"
  by (induction ws) auto

lemma swap_persona_legal:
  assumes "status s = active \<or> status s = awaiting_input"
    and "slot \<in> set (map slot_id (slots s))"
  shows "swap_persona slot p mode s =
     Inr (s\<lparr>slots := map (\<lambda>w. if slot_id w = slot then swap_slot mode p w else w) (slots s),
            audit_log := audit_log s @
              [\<lparr>au_stage = current_stage s, au_agent = slot, au_persona = p,
                au_content = ''persona swap''\<rparr>]\<rparr>)"
  using assms unfolding swap_persona_def by auto

lemma pending_restart [simp]: "slot_pending stage (swap_slot restart p w)"
  by (simp add: slot_pending_def)

lemma filter_pending_swap:
  "map slot_id (filter (slot_pending stage)
       (map (\<lambda>w. if slot_id w = slot then swap_slot restart p w else w) ws)) =
   map slot_id (filter (\<lambda>w. slot_id w = slot \<or> slot_pending stage w) ws)"
  by (induction ws) (simp_all del: swap_slot.simps)

lemma history_of_run_stage:
  "history_of (run_stage gen s) i =
     map_option (\<lambda>w. slot_history (run_slot gen (current_stage s) w))
       (find (\<lambda>w. slot_id w = i) (slots s))"
  by (simp add: history_of_def run_stage_def find_map_all option.map_comp comp_def)

text \<open>
  C7. For every persona swap with mode restart on a slot of a session that is active or
  awaiting input: the swap succeeds, the slot's output history is cleared and the histories
  of the other slots are unchanged. On the next run the slot executes the current stage
  (the worker calls are those of the swapped slot and of the slots that were pending
  anyway), after which it holds the one new output, produced under the new persona; every
  other slot has the history it would have had without the swap. The swap appends one log
  entry.
\<close>

theorem swap_restart_clears_slot:
  assumes legal: "status s = active \<or> status s = awaiting_input"
    and slot: "slot \<in> set (map slot_id (slots s))"
  shows "(case swap_persona slot p restart s of
            Inl e \<Rightarrow> False
          | Inr s' \<Rightarrow>
              history_of s' slot = Some []
            \<and> (\<forall>i. i \<noteq> slot \<longrightarrow> history_of s' i = history_of s i)
            \<and> worker_calls s' =
                map slot_id (filter (\<lambda>w. slot_id w = slot \<or> slot_pending (current_stage s) w)
                               (slots s))
            \<and> history_of (run_stage gen s') slot =
                Some [\<lparr>out_stage = current_stage s, out_persona = p,
                       out_text = gen slot p (current_stage s), out_hidden = False\<rparr>]
            \<and> (\<forall>i. i \<noteq> slot \<longrightarrow>
                   history_of (run_stage gen s') i = history_of (run_stage gen s) i)
            \<and> length (audit_log s') = Suc (length (audit_log s)))"
proof -
  define s' where "s' = s\<lparr>slots := map (\<lambda>w. if slot_id w = slot then swap_slot restart p w else w) (slots s),
            audit_log := audit_log s @
              [\<lparr>au_stage = current_stage s, au_agent = slot, au_persona = p,
                au_content = ''persona swap''\<rparr>]\<rparr>"
  have sw: "swap_persona slot p restart s = Inr s'"
    unfolding s'_def using legal slot by (rule swap_persona_legal)
  have stage: "current_stage s' = current_stage s" by (simp add: s'_def)
  obtain w where w: "find (\<lambda>w. slot_id w = slot) (slots s) = Some w"
    using find_slot_Some [OF slot] by blast
  then have wid: "slot_id w = slot" by (auto simp: find_Some_iff)
  have fs: "find (\<lambda>w. slot_id w = slot) (slots s') = Some (swap_slot restart p w)"
    by (simp add: s'_def find_map_if_same w)
  have fo: "find (\<lambda>w. slot_id w = i) (slots s') = find (\<lambda>w. slot_id w = i) (slots s)"
    if "i \<noteq> slot" for i
    using that by (simp add: s'_def find_map_if_other)
  have h1: "history_of s' slot = Some []"
    by (simp add: history_of_def fs)
  have h2: "history_of s' i = history_of s i" if "i \<noteq> slot" for i
    by (simp add: history_of_def fo [OF that])
  have calls: "worker_calls s' =
      map slot_id (filter (\<lambda>w. slot_id w = slot \<or> slot_pending (current_stage s) w) (slots s))"
    unfolding worker_calls_def stage by (simp add: s'_def filter_pending_swap)
  have h3: "history_of (run_stage gen s') slot =
      Some [\<lparr>out_stage = current_stage s, out_persona = p,
             out_text = gen slot p (current_stage s), out_hidden = False\<rparr>]"
    unfolding history_of_run_stage fs stage
    by (simp add: run_slot_def slot_pending_def wid)
  have h4: "history_of (run_stage gen s') i = history_of (run_stage gen s) i"
    if "i \<noteq> slot" for i
    unfolding history_of_run_stage stage fo [OF that] ..
  have len: "length (audit_log s') = Suc (length (audit_log s))" by (simp add: s'_def)
  show ?thesis unfolding sw sum.case using h1 h2 calls h3 h4 len by blast
qed

theorem swap_restart_clears_slot_witness:
  "(status example_session = active \<or> status example_session = awaiting_input)
   \<and> ''worker_2'' \<in> set (map slot_id (slots example_session))
   \<and> (case swap_persona ''worker_2'' ''skeptic'' restart example_session of
         Inl e \<Rightarrow> False
       | Inr s' \<Rightarrow>
           history_of s' ''worker_2'' = Some []
         \<and> history_of s' ''worker_1'' = history_of example_session ''worker_1''
         \<and> worker_calls s' = [''worker_2'']
         \<and> history_of (run_stage example_gateway s') ''worker_2'' =
             Some [\<lparr>out_stage = ''worker_refinement_1'', out_persona = ''skeptic'',
                    out_text = ''skeptic on worker_refinement_1'', out_hidden = False\<rparr>]
         \<and> history_of (run_stage example_gateway s') ''worker_1'' =
             history_of example_session ''worker_1'')"
proof -
  have h1: "status example_session = active \<or> status example_session = awaiting_input"
    by (simp add: example_session_def)
  have h2: "''worker_2'' \<in> set (map slot_id (slots example_session))"
    by (simp add: example_session_def)
  have st: "current_stage example_session = ''worker_refinement_1''"
    by (simp add: example_session_def)
  have pend: "map slot_id (filter (\<lambda>w. slot_id w = ''worker_2''
                  \<or> slot_pending (current_stage example_session) w) (slots example_session))
      = [''worker_2'']"
    by (simp add: example_session_def slot_pending_def)
  have same: "history_of (run_stage example_gateway example_session) ''worker_1''
      = history_of example_session ''worker_1''"
    unfolding history_of_run_stage
    by (simp add: history_of_def example_session_def run_slot_def slot_pending_def)
  note T = swap_restart_clears_slot [OF h1 h2, where p = "''skeptic''" and gen = example_gateway]
  obtain s' where sw: "swap_persona ''worker_2'' ''skeptic'' restart example_session = Inr s'"
    using T by (cases "swap_persona ''worker_2'' ''skeptic'' restart example_session") simp_all
  have a: "history_of s' ''worker_2'' = Some []"
    and b: "history_of s' ''worker_1'' = history_of example_session ''worker_1''"
    and c: "worker_calls s' = [''worker_2'']"
    and d: "history_of (run_stage example_gateway s') ''worker_2'' =
             Some [\<lparr>out_stage = ''worker_refinement_1'', out_persona = ''skeptic'',
                    out_text = ''skeptic on worker_refinement_1'', out_hidden = False\<rparr>]"
    and e: "history_of (run_stage example_gateway s') ''worker_1'' =
             history_of example_session ''worker_1''"
    using T pend same unfolding sw sum.case st by (simp_all add: example_gateway_def)
  show ?thesis unfolding sw sum.case using h1 h2 a b c d e by (intro conjI)
qed

end
